theory Spec2Isabelle
  imports Complex_Main "HOL-Library.Word" "HOL-Library.AList"
begin

section \<open>Values, exceptions and identifiers\<close>

text \<open>
  The SentraCore backend is a FastAPI application over one MongoDB collection. The
  embedding follows the three source files that carry the behaviour:
  \<^verbatim>\<open>models/sentra_core.py\<close> (the pydantic models),
  \<^verbatim>\<open>controllers/sentra_core_controller.py\<close> (the repository) and
  \<^verbatim>\<open>routes/sentra_core_routes.py\<close> (the HTTP handlers).

  A Python \<^verbatim>\<open>dict\<close> is an association list with string keys, in insertion
  order; the values that travel between the models and the store are the BSON values
  below. A \<^verbatim>\<open>datetime\<close> is a count of clock units at the resolution the
  store keeps. The coordinates of a label are floating-point numbers that the program
  only stores and returns, never computes with; they are carried as reals.
\<close>

type_synonym time = nat

type_synonym ObjectId = "96 word"

datatype bval =
    VNull
  | VStr string
  | VNum real
  | VOid ObjectId
  | VDate time
  | VList "bval list"
  | VDict "(string \<times> bval) list"

type_synonym pydict = "(string \<times> bval) list"

text \<open>
  Exceptions are values. \<open>ValidationError\<close> is pydantic's, a subclass of
  \<^verbatim>\<open>ValueError\<close>; \<open>HTTPException\<close> is FastAPI's, a subclass of
  \<^verbatim>\<open>Exception\<close> like every other one here; \<open>PyMongoError\<close> stands for
  the driver's failures, \<open>OverflowError\<close> for Python's own (raised where an integer does
  not fit the 64 bits of a BSON integer), \<open>InvalidId\<close> for \<^verbatim>\<open>bson.errors.InvalidId\<close> and
  \<open>RequestValidationError\<close> for FastAPI's refusal of a request before its handler runs.
\<close>

datatype exn =
    ValueError string
  | ValidationError string
  | InvalidId string
  | PyMongoError string
  | OverflowError string
  | HTTPException nat string
  | RequestValidationError string
  | Exception string

text \<open>\<^verbatim>\<open>except ValueError\<close> catches the class and its subclasses.\<close>

fun is_ValueError :: "exn \<Rightarrow> bool" where
  "is_ValueError (ValueError m) = True"
| "is_ValueError (ValidationError m) = True"
| "is_ValueError e = False"

fun show_nat :: "nat \<Rightarrow> string" where
  "show_nat n =
     (if n < 10 then [''0123456789'' ! n]
      else show_nat (n div 10) @ [''0123456789'' ! (n mod 10)])"

declare show_nat.simps [simp del]

text \<open>
  \<^verbatim>\<open>str(e)\<close>: the message of the exception; an \<open>HTTPException\<close> prints as
  \<^verbatim>\<open>f"{status_code}: {detail}"\<close>.
\<close>

fun str_exn :: "exn \<Rightarrow> string" where
  "str_exn (ValueError m) = m"
| "str_exn (ValidationError m) = m"
| "str_exn (InvalidId m) = m"
| "str_exn (PyMongoError m) = m"
| "str_exn (OverflowError m) = m"
| "str_exn (HTTPException status detail) = show_nat status @ '': '' @ detail"
| "str_exn (RequestValidationError m) = m"
| "str_exn (Exception m) = m"

subsection \<open>bson.ObjectId\<close>

text \<open>
  An \<^verbatim>\<open>ObjectId\<close> is twelve bytes, here one 96-bit word. The library is not
  part of the repository; it is modelled by its documented contract:
  \<^verbatim>\<open>ObjectId.is_valid(s)\<close> holds for a string of 24 hexadecimal digits (either
  case), \<^verbatim>\<open>ObjectId(s)\<close> reads such a string big-endian and raises
  \<^verbatim>\<open>InvalidId\<close> on any other, and \<^verbatim>\<open>str(oid)\<close> prints 24 lower-case
  digits.

  The library itself is more lenient than its contract on one kind of string: it reads
  the digits with \<^verbatim>\<open>bytes.fromhex\<close>, which skips ASCII whitespace between
  bytes, so a string of 24 characters with whitespace in it can pass
  \<^verbatim>\<open>is_valid\<close> and give an identifier of fewer than twelve bytes. What the
  driver and the store make of such an identifier is not modelled: \<open>is_valid\<close> below
  is the library's on every string without ASCII whitespace (\<open>no_whitespace\<close>), and
  what is proved about malformed identifiers is proved for those strings.
\<close>

definition ascii_whitespace :: "char \<Rightarrow> bool" where
  "ascii_whitespace c =
     (c = CHR '' '' \<or> c = CHR 0x09 \<or> c = CHR 0x0A \<or> c = CHR 0x0B \<or> c = CHR 0x0C \<or>
      c = CHR 0x0D)"

definition no_whitespace :: "string \<Rightarrow> bool" where
  "no_whitespace s = list_all (\<lambda>c. \<not> ascii_whitespace c) s"

definition hexval :: "char \<Rightarrow> nat option" where
  "hexval c = map_of
     [(CHR ''0'', 0), (CHR ''1'', 1), (CHR ''2'', 2), (CHR ''3'', 3), (CHR ''4'', 4),
      (CHR ''5'', 5), (CHR ''6'', 6), (CHR ''7'', 7), (CHR ''8'', 8), (CHR ''9'', 9),
      (CHR ''a'', 10), (CHR ''b'', 11), (CHR ''c'', 12), (CHR ''d'', 13), (CHR ''e'', 14),
      (CHR ''f'', 15), (CHR ''A'', 10), (CHR ''B'', 11), (CHR ''C'', 12), (CHR ''D'', 13),
      (CHR ''E'', 14), (CHR ''F'', 15)] c"

definition is_valid :: "string \<Rightarrow> bool" where
  "is_valid s = (length s = 24 \<and> list_all (\<lambda>c. hexval c \<noteq> None) s)"

definition fromhex :: "string \<Rightarrow> ObjectId" where
  "fromhex s =
     foldl (\<lambda>acc c. case hexval c of None \<Rightarrow> acc | Some d \<Rightarrow> acc * 16 + of_nat d) 0 s"

definition ObjectId_of_str :: "string \<Rightarrow> exn + ObjectId" where
  "ObjectId_of_str s =
     (if is_valid s then Inr (fromhex s)
      else Inl (InvalidId (s @ '' is not a valid ObjectId'')))"

definition str_ObjectId :: "ObjectId \<Rightarrow> string" where
  "str_ObjectId oid =
     map (\<lambda>i. ''0123456789abcdef'' ! ((unat oid div 16 ^ i) mod 16)) (rev [0..<24])"

subsection \<open>The world outside the process\<close>

text \<open>
  What the handlers read and change beyond their arguments: the documents of the
  \<^verbatim>\<open>sentra_core\<close> collection in their natural (insertion) order, whether the
  store answers at all, the clock behind \<^verbatim>\<open>datetime.utcnow()\<close> and the
  generator behind \<^verbatim>\<open>ObjectId()\<close>. The clock and the generator are sequences of
  the values the next calls will return, with a count of the calls made so far.
\<close>

record world =
  documents :: "pydict list"
  reachable :: bool
  clock :: "nat \<Rightarrow> time"
  ticks :: nat
  fresh_ids :: "nat \<Rightarrow> ObjectId"
  generated :: nat

definition utcnow :: "world \<Rightarrow> time \<times> world" where
  "utcnow w = (clock w (ticks w), w\<lparr>ticks := Suc (ticks w)\<rparr>)"

definition new_ObjectId :: "world \<Rightarrow> ObjectId \<times> world" where
  "new_ObjectId w = (fresh_ids w (generated w), w\<lparr>generated := Suc (generated w)\<rparr>)"

section \<open>The models (models/sentra_core.py)\<close>

text \<open>
  Each pydantic class is a record. Isabelle keeps one name space for the fields of all
  records, so every field carries the initial of its class: \<open>l_\<close> for
  \<^verbatim>\<open>LabelModel\<close>, \<open>c_\<close> for \<^verbatim>\<open>ConnectionModel\<close>, \<open>m_\<close> for
  \<^verbatim>\<open>SentraCoreModel\<close>, \<open>cr_\<close> for \<^verbatim>\<open>SentraCoreCreate\<close> and
  \<open>up_\<close> for \<^verbatim>\<open>SentraCoreUpdate\<close>. An \<^verbatim>\<open>Optional[str]\<close> is a
  \<open>string option\<close>, with \<open>None\<close> for Python's \<^verbatim>\<open>None\<close>.
\<close>

record LabelModel =
  l_id :: string
  l_text :: string
  l_value :: string
  l_x :: real
  l_y :: real
  l_category :: string

record ConnectionModel =
  c_id :: string
  c_from_id :: string
  c_to_id :: string

text \<open>The field \<^verbatim>\<open>id: Optional[Union[str, ObjectId]]\<close>, alias \<^verbatim>\<open>_id\<close>.\<close>

datatype id_val = IdNone | IdStr string | IdOid ObjectId

record SentraCoreModel =
  m_id :: id_val
  m_name :: string
  m_description :: "string option"
  m_labels :: "LabelModel list"
  m_connections :: "ConnectionModel list"
  m_selected_option :: "string option"
  m_created_at :: time
  m_updated_at :: time

record SentraCoreCreate =
  cr_name :: string
  cr_description :: "string option"
  cr_labels :: "LabelModel list"
  cr_connections :: "ConnectionModel list"
  cr_selected_option :: "string option"

text \<open>
  Every field of \<^verbatim>\<open>SentraCoreUpdate\<close> is \<^verbatim>\<open>Optional[...] = None\<close>, and
  pydantic records which fields the request set. A field is therefore in one of three
  states: not set, set to \<^verbatim>\<open>None\<close> (a JSON \<^verbatim>\<open>null\<close> in the body), or
  set to a value.
\<close>

datatype 'a field = Unset | Provided "'a option"

record SentraCoreUpdate =
  up_name :: "string field"
  up_description :: "string field"
  up_labels :: "LabelModel list field"
  up_connections :: "ConnectionModel list field"
  up_selected_option :: "string field"

subsection \<open>model_dump\<close>

definition LabelModel_dump :: "LabelModel \<Rightarrow> bval" where
  "LabelModel_dump l = VDict
     [(''id'', VStr (l_id l)), (''text'', VStr (l_text l)), (''value'', VStr (l_value l)),
      (''x'', VNum (l_x l)), (''y'', VNum (l_y l)), (''category'', VStr (l_category l))]"

definition ConnectionModel_dump :: "ConnectionModel \<Rightarrow> bval" where
  "ConnectionModel_dump c = VDict
     [(''id'', VStr (c_id c)), (''from_id'', VStr (c_from_id c)),
      (''to_id'', VStr (c_to_id c))]"

definition dump_opt_str :: "string option \<Rightarrow> bval" where
  "dump_opt_str s = (case s of None \<Rightarrow> VNull | Some t \<Rightarrow> VStr t)"

definition dump_id :: "id_val \<Rightarrow> bval" where
  "dump_id i = (case i of IdNone \<Rightarrow> VNull | IdStr s \<Rightarrow> VStr s | IdOid oid \<Rightarrow> VOid oid)"

text \<open>\<^verbatim>\<open>model_dump(by_alias=True)\<close> of a \<^verbatim>\<open>SentraCoreModel\<close>.\<close>

definition SentraCoreModel_dump :: "SentraCoreModel \<Rightarrow> pydict" where
  "SentraCoreModel_dump m =
     [(''_id'', dump_id (m_id m)),
      (''name'', VStr (m_name m)),
      (''description'', dump_opt_str (m_description m)),
      (''labels'', VList (map LabelModel_dump (m_labels m))),
      (''connections'', VList (map ConnectionModel_dump (m_connections m))),
      (''selected_option'', dump_opt_str (m_selected_option m)),
      (''created_at'', VDate (m_created_at m)),
      (''updated_at'', VDate (m_updated_at m))]"

text \<open>
  \<^verbatim>\<open>model_dump(exclude_unset=True)\<close> of a \<^verbatim>\<open>SentraCoreUpdate\<close>: one entry
  for each field the request set, in the order of the class; a field set to
  \<^verbatim>\<open>None\<close> is an entry with the value \<open>VNull\<close>.
\<close>

definition dump_field :: "string \<Rightarrow> ('a \<Rightarrow> bval) \<Rightarrow> 'a field \<Rightarrow> pydict" where
  "dump_field key enc f =
     (case f of Unset \<Rightarrow> []
      | Provided None \<Rightarrow> [(key, VNull)]
      | Provided (Some v) \<Rightarrow> [(key, enc v)])"

definition SentraCoreUpdate_dump_exclude_unset :: "SentraCoreUpdate \<Rightarrow> pydict" where
  "SentraCoreUpdate_dump_exclude_unset u =
     dump_field ''name'' VStr (up_name u) @
     dump_field ''description'' VStr (up_description u) @
     dump_field ''labels'' (\<lambda>ls. VList (map LabelModel_dump ls)) (up_labels u) @
     dump_field ''connections'' (\<lambda>cs. VList (map ConnectionModel_dump cs)) (up_connections u) @
     dump_field ''selected_option'' VStr (up_selected_option u)"

subsection \<open>Validation\<close>

text \<open>
  Constructing a model from keyword arguments validates each field. A required field
  must be present with a value of its type; an optional string also takes
  \<^verbatim>\<open>None\<close>; a missing field with a default takes the default. Keys that name no
  field are ignored. pydantic's coercions between types (a numeric string for a float, a
  number for a datetime) are not modelled: a value of another type fails validation
  here. No dictionary that the program builds or stores holds such a value.
\<close>

definition get_str :: "pydict \<Rightarrow> string \<Rightarrow> string option" where
  "get_str d k = (case map_of d k of Some (VStr s) \<Rightarrow> Some s | _ \<Rightarrow> None)"

definition get_num :: "pydict \<Rightarrow> string \<Rightarrow> real option" where
  "get_num d k = (case map_of d k of Some (VNum r) \<Rightarrow> Some r | _ \<Rightarrow> None)"

text \<open>An \<^verbatim>\<open>Optional[str] = ""\<close> field: the outer \<open>None\<close> is a failure.\<close>

definition get_opt_str :: "pydict \<Rightarrow> string \<Rightarrow> string option option" where
  "get_opt_str d k =
     (case map_of d k of
        None \<Rightarrow> Some (Some [])
      | Some VNull \<Rightarrow> Some None
      | Some (VStr s) \<Rightarrow> Some (Some s)
      | Some _ \<Rightarrow> None)"

definition LabelModel_validate :: "bval \<Rightarrow> LabelModel option" where
  "LabelModel_validate v =
     (case v of
        VDict d \<Rightarrow>
          Option.bind (get_str d ''id'') (\<lambda>i.
          Option.bind (get_str d ''text'') (\<lambda>t.
          Option.bind (get_str d ''value'') (\<lambda>vl.
          Option.bind (get_num d ''x'') (\<lambda>px.
          Option.bind (get_num d ''y'') (\<lambda>py.
          Option.bind (get_str d ''category'') (\<lambda>cat.
            Some \<lparr>l_id = i, l_text = t, l_value = vl, l_x = px, l_y = py,
                   l_category = cat\<rparr>))))))
      | _ \<Rightarrow> None)"

definition ConnectionModel_validate :: "bval \<Rightarrow> ConnectionModel option" where
  "ConnectionModel_validate v =
     (case v of
        VDict d \<Rightarrow>
          Option.bind (get_str d ''id'') (\<lambda>i.
          Option.bind (get_str d ''from_id'') (\<lambda>f.
          Option.bind (get_str d ''to_id'') (\<lambda>t.
            Some \<lparr>c_id = i, c_from_id = f, c_to_id = t\<rparr>)))
      | _ \<Rightarrow> None)"

text \<open>A \<^verbatim>\<open>List[...]\<close> field with the default \<^verbatim>\<open>[]\<close>.\<close>

definition get_list :: "(bval \<Rightarrow> 'a option) \<Rightarrow> pydict \<Rightarrow> string \<Rightarrow> 'a list option" where
  "get_list validate d k =
     (case map_of d k of
        None \<Rightarrow> Some []
      | Some (VList vs) \<Rightarrow> those (map validate vs)
      | Some _ \<Rightarrow> None)"

text \<open>\<^verbatim>\<open>SentraCoreCreate(**kwargs)\<close>.\<close>

definition SentraCoreCreate_validate :: "pydict \<Rightarrow> exn + SentraCoreCreate" where
  "SentraCoreCreate_validate kw =
     (case Option.bind (get_str kw ''name'') (\<lambda>n.
           Option.bind (get_opt_str kw ''description'') (\<lambda>d.
           Option.bind (get_list LabelModel_validate kw ''labels'') (\<lambda>ls.
           Option.bind (get_list ConnectionModel_validate kw ''connections'') (\<lambda>cs.
           Option.bind (get_opt_str kw ''selected_option'') (\<lambda>so.
             Some \<lparr>cr_name = n, cr_description = d, cr_labels = ls, cr_connections = cs,
                    cr_selected_option = so\<rparr>))))) of
        None \<Rightarrow> Inl (ValidationError ''validation error for SentraCoreCreate'')
      | Some c \<Rightarrow> Inr c)"

definition validate_id :: "bval \<Rightarrow> id_val option" where
  "validate_id v =
     (case v of VNull \<Rightarrow> Some IdNone | VStr s \<Rightarrow> Some (IdStr s) | VOid oid \<Rightarrow> Some (IdOid oid)
      | _ \<Rightarrow> None)"

text \<open>
  A field with a default factory: \<^verbatim>\<open>id\<close> (alias \<^verbatim>\<open>_id\<close>, and by
  \<^verbatim>\<open>populate_by_name\<close> also its own name) calls \<^verbatim>\<open>ObjectId()\<close> when the
  key is missing; the two timestamps call \<^verbatim>\<open>datetime.utcnow()\<close>, each for
  itself.
\<close>

definition id_field :: "pydict \<Rightarrow> world \<Rightarrow> id_val option \<times> world" where
  "id_field d w =
     (case map_of d ''_id'' of
        Some v \<Rightarrow> (validate_id v, w)
      | None \<Rightarrow>
          (case map_of d ''id'' of
             Some v \<Rightarrow> (validate_id v, w)
           | None \<Rightarrow> (let (oid, w') = new_ObjectId w in (Some (IdOid oid), w'))))"

definition datetime_field :: "pydict \<Rightarrow> string \<Rightarrow> world \<Rightarrow> time option \<times> world" where
  "datetime_field d k w =
     (case map_of d k of
        None \<Rightarrow> (let (t, w') = utcnow w in (Some t, w'))
      | Some (VDate t) \<Rightarrow> (Some t, w)
      | Some _ \<Rightarrow> (None, w))"

text \<open>
  \<^verbatim>\<open>SentraCoreModel(**kwargs)\<close>: the fields in the order of the class, so that a
  missing \<^verbatim>\<open>created_at\<close> reads the clock before a missing
  \<^verbatim>\<open>updated_at\<close> does.
\<close>

definition SentraCoreModel_validate :: "pydict \<Rightarrow> world \<Rightarrow> (exn + SentraCoreModel) \<times> world" where
  "SentraCoreModel_validate kw w =
     (let (i, w1) = id_field kw w;
          (ca, w2) = datetime_field kw ''created_at'' w1;
          (ua, w3) = datetime_field kw ''updated_at'' w2
      in (case Option.bind i (\<lambda>iv.
                Option.bind (get_str kw ''name'') (\<lambda>n.
                Option.bind (get_opt_str kw ''description'') (\<lambda>d.
                Option.bind (get_list LabelModel_validate kw ''labels'') (\<lambda>ls.
                Option.bind (get_list ConnectionModel_validate kw ''connections'') (\<lambda>cs.
                Option.bind (get_opt_str kw ''selected_option'') (\<lambda>so.
                Option.bind ca (\<lambda>c.
                Option.bind ua (\<lambda>u.
                  Some \<lparr>m_id = iv, m_name = n, m_description = d, m_labels = ls,
                         m_connections = cs, m_selected_option = so, m_created_at = c,
                         m_updated_at = u\<rparr>)))))))) of
            None \<Rightarrow> (Inl (ValidationError ''validation error for SentraCoreModel''), w3)
          | Some m \<Rightarrow> (Inr m, w3)))"

section \<open>The collection\<close>

text \<open>
  The operations of the driver that the controller calls, on the documents of the
  world. Each fails when the store does not answer. A filter is always
  \<^verbatim>\<open>{"_id": v}\<close>; a document matches when its \<^verbatim>\<open>_id\<close> is \<open>v\<close>, and the
  first match in natural order is the one read, changed or removed.
\<close>

definition unreachable :: exn where
  "unreachable = PyMongoError ''ServerSelectionTimeoutError''"

definition has_id :: "bval \<Rightarrow> pydict \<Rightarrow> bool" where
  "has_id v d = (map_of d ''_id'' = Some v)"

definition find_one :: "bval \<Rightarrow> world \<Rightarrow> exn + pydict option" where
  "find_one v w =
     (if reachable w then Inr (List.find (has_id v) (documents w)) else Inl unreachable)"

text \<open>
  \<^verbatim>\<open>insert_one\<close> refuses a second document with the same \<^verbatim>\<open>_id\<close> (the
  unique index of the collection) and gives a document without one a fresh
  \<^verbatim>\<open>ObjectId\<close>.
\<close>

definition store_new :: "bval \<Rightarrow> pydict \<Rightarrow> world \<Rightarrow> (exn + bval) \<times> world" where
  "store_new v doc w =
     (if list_ex (has_id v) (documents w)
      then (Inl (PyMongoError ''E11000 duplicate key error''), w)
      else (Inr v, w\<lparr>documents := documents w @ [doc]\<rparr>))"

definition insert_one :: "pydict \<Rightarrow> world \<Rightarrow> (exn + bval) \<times> world" where
  "insert_one doc w =
     (if \<not> reachable w then (Inl unreachable, w)
      else (case map_of doc ''_id'' of
              Some v \<Rightarrow> store_new v doc w
            | None \<Rightarrow>
                (let (oid, w') = new_ObjectId w
                 in store_new (VOid oid) ((''_id'', VOid oid) # doc) w')))"

fun replace_first :: "('a \<Rightarrow> bool) \<Rightarrow> 'a \<Rightarrow> 'a list \<Rightarrow> 'a list" where
  "replace_first P y [] = []"
| "replace_first P y (x # xs) = (if P x then y # xs else x # replace_first P y xs)"

fun remove_first :: "('a \<Rightarrow> bool) \<Rightarrow> 'a list \<Rightarrow> 'a list" where
  "remove_first P [] = []"
| "remove_first P (x # xs) = (if P x then xs else x # remove_first P xs)"

text \<open>
  \<^verbatim>\<open>{"$set": upd}\<close> assigns each entry of \<open>upd\<close> to the document: an existing
  field is overwritten in place, a new one is added at the end.
\<close>

definition apply_set :: "pydict \<Rightarrow> pydict \<Rightarrow> pydict" where
  "apply_set upd d = fold (\<lambda>(k, v). AList.update k v) upd d"

record UpdateResult =
  matched_count :: nat
  modified_count :: nat

text \<open>
  \<^verbatim>\<open>update_one\<close>: the store counts the document as modified only when the
  assignment changed it, and refuses an assignment that would change \<^verbatim>\<open>_id\<close>.
\<close>

definition update_one :: "bval \<Rightarrow> pydict \<Rightarrow> world \<Rightarrow> (exn + UpdateResult) \<times> world" where
  "update_one v upd w =
     (if \<not> reachable w then (Inl unreachable, w)
      else (case List.find (has_id v) (documents w) of
              None \<Rightarrow> (Inr \<lparr>matched_count = 0, modified_count = 0\<rparr>, w)
            | Some d \<Rightarrow>
                (let d' = apply_set upd d
                 in if map_of d' ''_id'' \<noteq> map_of d ''_id''
                    then (Inl (PyMongoError ''the (immutable) field _id was altered''), w)
                    else (Inr \<lparr>matched_count = 1,
                               modified_count = (if d' = d then 0 else 1)\<rparr>,
                          w\<lparr>documents := replace_first (has_id v) d' (documents w)\<rparr>))))"

text \<open>\<^verbatim>\<open>delete_one\<close> returns the \<^verbatim>\<open>deleted_count\<close>.\<close>

definition delete_one :: "bval \<Rightarrow> world \<Rightarrow> (exn + nat) \<times> world" where
  "delete_one v w =
     (if \<not> reachable w then (Inl unreachable, w)
      else (case List.find (has_id v) (documents w) of
              None \<Rightarrow> (Inr 0, w)
            | Some d \<Rightarrow> (Inr 1, w\<lparr>documents := remove_first (has_id v) (documents w)\<rparr>)))"

text \<open>
  \<^verbatim>\<open>find().skip(skip).limit(limit).sort("created_at", -1)\<close> followed by
  \<^verbatim>\<open>to_list(length=limit)\<close>. The calls only set options of the cursor; the store
  sorts first, then skips, then limits, whatever the order of the calls. The sort is
  descending on the date under \<^verbatim>\<open>created_at\<close>; documents with equal dates stay in
  natural order (the store promises no order among them), and a document without a date
  there comes after all that have one. A negative \<^verbatim>\<open>skip\<close> is refused by the
  cursor and a negative length by \<^verbatim>\<open>to_list\<close>, both before the store is
  asked. The command that goes to the store carries \<^verbatim>\<open>skip\<close> and
  \<^verbatim>\<open>limit\<close> as BSON integers of at most 64 bits: a value from \<open>2 ^ 63\<close> on
  cannot be encoded, and the driver raises \<^verbatim>\<open>OverflowError\<close> in place of the
  query.
\<close>

definition created_at_key :: "pydict \<Rightarrow> int" where
  "created_at_key d = (case map_of d ''created_at'' of Some (VDate t) \<Rightarrow> int t | _ \<Rightarrow> - 1)"

definition sort_created_at_desc :: "pydict list \<Rightarrow> pydict list" where
  "sort_created_at_desc ds = sort_key (\<lambda>d. - created_at_key d) ds"

definition find_skip_limit_sort :: "int \<Rightarrow> int \<Rightarrow> world \<Rightarrow> exn + pydict list" where
  "find_skip_limit_sort skip limit w =
     (if skip < 0 then Inl (ValueError ''skip must be >= 0'')
      else if limit < 0 then Inl (ValueError ''length must be non-negative'')
      else if \<not> reachable w then Inl unreachable
      else if 2 ^ 63 \<le> skip \<or> 2 ^ 63 \<le> limit
      then Inl (OverflowError ''MongoDB can only handle up to 8-byte ints'')
      else Inr (take (nat limit) (drop (nat skip) (sort_created_at_desc (documents w)))))"

section \<open>The controller (controllers/sentra_core_controller.py)\<close>

text \<open>
  Every method of \<^verbatim>\<open>SentraCoreController\<close> is one \<^verbatim>\<open>try\<close> block whose
  handler \<^verbatim>\<open>except Exception as e: raise Exception(f"...: {str(e)}")\<close> catches
  whatever the body raises, the method's own \<^verbatim>\<open>ValueError\<close> included, and raises
  a plain \<^verbatim>\<open>Exception\<close> in its place.
\<close>

definition reraise :: "string \<Rightarrow> (exn + 'a) \<times> world \<Rightarrow> (exn + 'a) \<times> world" where
  "reraise prefix r =
     (case r of
        (Inl e, w) \<Rightarrow> (Inl (Exception (prefix @ str_exn e)), w)
      | (Inr v, w) \<Rightarrow> (Inr v, w))"

text \<open>
  \<^verbatim>\<open>SentraCoreModel(name=..., description=..., labels=..., connections=...,
  selected_option=...)\<close>: the three fields left out take their default factories, in
  the order of the class: \<^verbatim>\<open>ObjectId()\<close>, then \<^verbatim>\<open>datetime.utcnow()\<close> for
  \<^verbatim>\<open>created_at\<close>, then \<^verbatim>\<open>datetime.utcnow()\<close> again for
  \<^verbatim>\<open>updated_at\<close>.
\<close>

definition SentraCoreModel_new ::
  "string \<Rightarrow> string option \<Rightarrow> LabelModel list \<Rightarrow> ConnectionModel list \<Rightarrow> string option \<Rightarrow>
   world \<Rightarrow> SentraCoreModel \<times> world" where
  "SentraCoreModel_new name description labels connections selected_option w =
     (let (oid, w1) = new_ObjectId w;
          (ca, w2) = utcnow w1;
          (ua, w3) = utcnow w2
      in (\<lparr>m_id = IdOid oid, m_name = name, m_description = description,
           m_labels = labels, m_connections = connections,
           m_selected_option = selected_option, m_created_at = ca, m_updated_at = ua\<rparr>,
          w3))"

text \<open>\<^verbatim>\<open>SentraCoreModel(**doc)\<close> where \<open>doc\<close> is what \<^verbatim>\<open>find_one\<close> returned.\<close>

definition SentraCoreModel_of_found ::
  "pydict option \<Rightarrow> world \<Rightarrow> (exn + SentraCoreModel) \<times> world" where
  "SentraCoreModel_of_found doc w =
     (case doc of
        None \<Rightarrow> (Inl (Exception ''argument after ** must be a mapping, not NoneType''), w)
      | Some d \<Rightarrow> SentraCoreModel_validate d w)"

definition create_sentra_core ::
  "SentraCoreCreate \<Rightarrow> world \<Rightarrow> (exn + SentraCoreModel) \<times> world" where
  "create_sentra_core sentra_core_data w =
     reraise ''Error creating SentraCore configuration: ''
       (let (sentra_core_model, w1) =
              SentraCoreModel_new (cr_name sentra_core_data)
                (cr_description sentra_core_data) (cr_labels sentra_core_data)
                (cr_connections sentra_core_data) (cr_selected_option sentra_core_data) w
        in (case insert_one (SentraCoreModel_dump sentra_core_model) w1 of
              (Inl e, w2) \<Rightarrow> (Inl e, w2)
            | (Inr inserted_id, w2) \<Rightarrow>
                (case find_one inserted_id w2 of
                   Inl e \<Rightarrow> (Inl e, w2)
                 | Inr created_doc \<Rightarrow> SentraCoreModel_of_found created_doc w2)))"

definition get_sentra_core_by_id ::
  "string \<Rightarrow> world \<Rightarrow> (exn + SentraCoreModel option) \<times> world" where
  "get_sentra_core_by_id sentra_core_id w =
     reraise ''Error retrieving SentraCore configuration: ''
       (if \<not> is_valid sentra_core_id then (Inl (ValueError ''Invalid ObjectId format''), w)
        else (case ObjectId_of_str sentra_core_id of
                Inl e \<Rightarrow> (Inl e, w)
              | Inr oid \<Rightarrow>
                  (case find_one (VOid oid) w of
                     Inl e \<Rightarrow> (Inl e, w)
                   | Inr doc \<Rightarrow>
                       (case doc of
                          None \<Rightarrow> (Inr None, w)
                        | Some d \<Rightarrow>
                            if d = [] then (Inr None, w)
                            else (case SentraCoreModel_validate d w of
                                    (Inl e, w1) \<Rightarrow> (Inl e, w1)
                                  | (Inr m, w1) \<Rightarrow> (Inr (Some m), w1))))))"

fun validate_all :: "pydict list \<Rightarrow> world \<Rightarrow> (exn + SentraCoreModel list) \<times> world" where
  "validate_all [] w = (Inr [], w)"
| "validate_all (doc # docs) w =
     (case SentraCoreModel_validate doc w of
        (Inl e, w1) \<Rightarrow> (Inl e, w1)
      | (Inr m, w1) \<Rightarrow>
          (case validate_all docs w1 of
             (Inl e, w2) \<Rightarrow> (Inl e, w2)
           | (Inr ms, w2) \<Rightarrow> (Inr (m # ms), w2)))"

definition get_all_sentra_core ::
  "int \<Rightarrow> int \<Rightarrow> world \<Rightarrow> (exn + SentraCoreModel list) \<times> world" where
  "get_all_sentra_core skip limit w =
     reraise ''Error retrieving SentraCore configurations: ''
       (case find_skip_limit_sort skip limit w of
          Inl e \<Rightarrow> (Inl e, w)
        | Inr docs \<Rightarrow> validate_all docs w)"

text \<open>
  \<^verbatim>\<open>update_dict = update_data.model_dump(exclude_unset=True)\<close>, then
  \<^verbatim>\<open>update_dict["updated_at"] = datetime.utcnow()\<close>.
\<close>

definition update_dict :: "SentraCoreUpdate \<Rightarrow> time \<Rightarrow> pydict" where
  "update_dict update_data now =
     AList.update ''updated_at'' (VDate now) (SentraCoreUpdate_dump_exclude_unset update_data)"

definition update_sentra_core ::
  "string \<Rightarrow> SentraCoreUpdate \<Rightarrow> world \<Rightarrow> (exn + SentraCoreModel option) \<times> world" where
  "update_sentra_core sentra_core_id update_data w =
     reraise ''Error updating SentraCore configuration: ''
       (if \<not> is_valid sentra_core_id then (Inl (ValueError ''Invalid ObjectId format''), w)
        else (let (now, w1) = utcnow w
              in (case ObjectId_of_str sentra_core_id of
                    Inl e \<Rightarrow> (Inl e, w1)
                  | Inr oid \<Rightarrow>
                      (case update_one (VOid oid) (update_dict update_data now) w1 of
                         (Inl e, w2) \<Rightarrow> (Inl e, w2)
                       | (Inr result, w2) \<Rightarrow>
                           if modified_count result \<noteq> 0
                           then (case find_one (VOid oid) w2 of
                                   Inl e \<Rightarrow> (Inl e, w2)
                                 | Inr updated_doc \<Rightarrow>
                                     (case SentraCoreModel_of_found updated_doc w2 of
                                        (Inl e, w3) \<Rightarrow> (Inl e, w3)
                                      | (Inr m, w3) \<Rightarrow> (Inr (Some m), w3)))
                           else (Inr None, w2)))))"

definition delete_sentra_core :: "string \<Rightarrow> world \<Rightarrow> (exn + bool) \<times> world" where
  "delete_sentra_core sentra_core_id w =
     reraise ''Error deleting SentraCore configuration: ''
       (if \<not> is_valid sentra_core_id then (Inl (ValueError ''Invalid ObjectId format''), w)
        else (case ObjectId_of_str sentra_core_id of
                Inl e \<Rightarrow> (Inl e, w)
              | Inr oid \<Rightarrow>
                  (case delete_one (VOid oid) w of
                     (Inl e, w1) \<Rightarrow> (Inl e, w1)
                   | (Inr deleted_count, w1) \<Rightarrow> (Inr (deleted_count > 0), w1))))"

subsection \<open>Saving the state of the front end\<close>

text \<open>
  The request models of \<^verbatim>\<open>routes/sentra_core_routes.py\<close> (fields \<open>fl_\<close>,
  \<open>fc_\<close> and \<open>ss_\<close>); \<open>fc_from\<close> is the field \<^verbatim>\<open>from_\<close>, whose alias on the
  wire is \<^verbatim>\<open>from\<close>.
\<close>

record FrontendLabel =
  fl_id :: string
  fl_text :: string
  fl_value :: string
  fl_x :: real
  fl_y :: real
  fl_category :: string

record FrontendConnection =
  fc_id :: string
  fc_from :: string
  fc_to :: string

record SaveStateRequest =
  ss_name :: string
  ss_description :: "string option"
  ss_labels :: "FrontendLabel list"
  ss_connections :: "FrontendConnection list"
  ss_selected_option :: string

text \<open>The two \<^verbatim>\<open>for\<close> loops, each appending one dictionary per element.\<close>

fun convert_labels :: "FrontendLabel list \<Rightarrow> bval list \<Rightarrow> bval list" where
  "convert_labels [] converted_labels = converted_labels"
| "convert_labels (label # labels) converted_labels =
     convert_labels labels
       (converted_labels @
        [VDict [(''id'', VStr (fl_id label)), (''text'', VStr (fl_text label)),
                (''value'', VStr (fl_value label)), (''x'', VNum (fl_x label)),
                (''y'', VNum (fl_y label)), (''category'', VStr (fl_category label))]])"

fun convert_connections :: "FrontendConnection list \<Rightarrow> bval list \<Rightarrow> bval list" where
  "convert_connections [] converted_connections = converted_connections"
| "convert_connections (connection # connections) converted_connections =
     convert_connections connections
       (converted_connections @
        [VDict [(''id'', VStr (fc_id connection)), (''from_id'', VStr (fc_from connection)),
                (''to_id'', VStr (fc_to connection))]])"

definition save_current_state ::
  "string \<Rightarrow> FrontendLabel list \<Rightarrow> FrontendConnection list \<Rightarrow> string \<Rightarrow> string option \<Rightarrow>
   world \<Rightarrow> (exn + SentraCoreModel) \<times> world" where
  "save_current_state name labels connections selected_option description w =
     reraise ''Error saving current state: ''
       (let converted_labels = convert_labels labels [];
            converted_connections = convert_connections connections []
        in (case SentraCoreCreate_validate
                   [(''name'', VStr name),
                    (''description'', dump_opt_str description),
                    (''labels'', VList converted_labels),
                    (''connections'', VList converted_connections),
                    (''selected_option'', VStr selected_option)] of
              Inl e \<Rightarrow> (Inl e, w)
            | Inr sentra_core_data \<Rightarrow> create_sentra_core sentra_core_data w))"

section \<open>The routes (routes/sentra_core_routes.py)\<close>

text \<open>
  A handler returns its value or raises; what every handler here raises is an
  \<open>HTTPException\<close>, whose status FastAPI answers with. A value is answered with the
  status of the decorator (200, or 201 where \<^verbatim>\<open>status_code=201\<close>); a query
  parameter outside its declared bounds is refused by FastAPI with 422 before the
  handler runs.
\<close>

definition status_of :: "nat \<Rightarrow> exn + 'a \<Rightarrow> nat" where
  "status_of success r =
     (case r of
        Inr v \<Rightarrow> success
      | Inl (HTTPException status detail) \<Rightarrow> status
      | Inl (RequestValidationError m) \<Rightarrow> 422
      | Inl e \<Rightarrow> 500)"

text \<open>
  The handlers of the three routes with an identifier end in
  \<^verbatim>\<open>except ValueError as e: raise HTTPException(status_code=400, ...)\<close> and then
  \<^verbatim>\<open>except Exception as e: raise HTTPException(status_code=500, ...)\<close>. The first
  clause that matches the class of the exception handles it; both guard the whole
  \<^verbatim>\<open>try\<close> block, the \<^verbatim>\<open>raise HTTPException(status_code=404, ...)\<close> in it
  included.
\<close>

definition http_errors :: "exn + 'a \<Rightarrow> exn + 'a" where
  "http_errors r =
     (case r of
        Inr v \<Rightarrow> Inr v
      | Inl e \<Rightarrow>
          if is_ValueError e then Inl (HTTPException 400 (str_exn e))
          else Inl (HTTPException 500 (str_exn e)))"

definition not_found :: exn where
  "not_found = HTTPException 404 ''SentraCore configuration not found''"

definition create_sentra_core_route ::
  "SentraCoreCreate \<Rightarrow> world \<Rightarrow> (exn + SentraCoreModel) \<times> world" where
  "create_sentra_core_route sentra_core_data w =
     (case create_sentra_core sentra_core_data w of
        (Inl e, w') \<Rightarrow> (Inl (HTTPException 400 (str_exn e)), w')
      | (Inr m, w') \<Rightarrow> (Inr m, w'))"

definition get_sentra_core_route ::
  "string \<Rightarrow> world \<Rightarrow> (exn + SentraCoreModel) \<times> world" where
  "get_sentra_core_route sentra_core_id w =
     (let (r, w') = get_sentra_core_by_id sentra_core_id w
      in (http_errors
            (case r of
               Inl e \<Rightarrow> Inl e
             | Inr None \<Rightarrow> Inl not_found
             | Inr (Some sentra_core) \<Rightarrow> Inr sentra_core),
          w'))"

definition query_int :: "int \<Rightarrow> (int \<Rightarrow> bool) \<Rightarrow> int option \<Rightarrow> exn + int" where
  "query_int dflt bounds p =
     (case p of
        None \<Rightarrow> Inr dflt
      | Some v \<Rightarrow>
          if bounds v then Inr v else Inl (RequestValidationError ''query parameter out of range''))"

text \<open>
  \<^verbatim>\<open>skip: int = Query(0, ge=0)\<close> and \<^verbatim>\<open>limit: int = Query(100, ge=1, le=1000)\<close>;
  a parameter the request leaves out is \<open>None\<close>.
\<close>

definition get_all_sentra_core_route ::
  "int option \<Rightarrow> int option \<Rightarrow> world \<Rightarrow> (exn + SentraCoreModel list) \<times> world" where
  "get_all_sentra_core_route skip limit w =
     (case query_int 0 (\<lambda>v. 0 \<le> v) skip of
        Inl e \<Rightarrow> (Inl e, w)
      | Inr s \<Rightarrow>
          (case query_int 100 (\<lambda>v. 1 \<le> v \<and> v \<le> 1000) limit of
             Inl e \<Rightarrow> (Inl e, w)
           | Inr l \<Rightarrow>
               (case get_all_sentra_core s l w of
                  (Inl e, w') \<Rightarrow> (Inl (HTTPException 500 (str_exn e)), w')
                | (Inr ms, w') \<Rightarrow> (Inr ms, w'))))"

definition update_sentra_core_route ::
  "string \<Rightarrow> SentraCoreUpdate \<Rightarrow> world \<Rightarrow> (exn + SentraCoreModel) \<times> world" where
  "update_sentra_core_route sentra_core_id update_data w =
     (let (r, w') = update_sentra_core sentra_core_id update_data w
      in (http_errors
            (case r of
               Inl e \<Rightarrow> Inl e
             | Inr None \<Rightarrow> Inl not_found
             | Inr (Some updated_sentra_core) \<Rightarrow> Inr updated_sentra_core),
          w'))"

definition delete_sentra_core_route :: "string \<Rightarrow> world \<Rightarrow> (exn + string) \<times> world" where
  "delete_sentra_core_route sentra_core_id w =
     (let (r, w') = delete_sentra_core sentra_core_id w
      in (http_errors
            (case r of
               Inl e \<Rightarrow> Inl e
             | Inr deleted \<Rightarrow>
                 if \<not> deleted then Inl not_found
                 else Inr ''SentraCore configuration deleted successfully''),
          w'))"

definition save_current_state_route ::
  "SaveStateRequest \<Rightarrow> world \<Rightarrow> (exn + SentraCoreModel) \<times> world" where
  "save_current_state_route request w =
     (case save_current_state (ss_name request) (ss_labels request) (ss_connections request)
             (ss_selected_option request) (ss_description request) w of
        (Inl e, w') \<Rightarrow> (Inl (HTTPException 400 (str_exn e)), w')
      | (Inr m, w') \<Rightarrow> (Inr m, w'))"

section \<open>Notions of the specification\<close>

text \<open>
  The translation of the front end's shapes as the specification words it: a
  \<^verbatim>\<open>FrontendLabel\<close> maps field for field to a label, a
  \<^verbatim>\<open>FrontendConnection {id, from, to}\<close> to a connection
  \<^verbatim>\<open>{id, from_id: from, to_id: to}\<close>, and the lists keep their order. The
  controller does not compute it this way (it builds dictionaries and lets
  \<^verbatim>\<open>SentraCoreCreate\<close> validate them); the two are compared below.
\<close>

definition Label_of_FrontendLabel :: "FrontendLabel \<Rightarrow> LabelModel" where
  "Label_of_FrontendLabel l =
     \<lparr>l_id = fl_id l, l_text = fl_text l, l_value = fl_value l, l_x = fl_x l,
      l_y = fl_y l, l_category = fl_category l\<rparr>"

definition Connection_of_FrontendConnection :: "FrontendConnection \<Rightarrow> ConnectionModel" where
  "Connection_of_FrontendConnection c =
     \<lparr>c_id = fc_id c, c_from_id = fc_from c, c_to_id = fc_to c\<rparr>"

definition CreateRequest_of_frontend ::
  "string \<Rightarrow> FrontendLabel list \<Rightarrow> FrontendConnection list \<Rightarrow> string \<Rightarrow> string option \<Rightarrow>
   SentraCoreCreate" where
  "CreateRequest_of_frontend name labels connections selected_option description =
     \<lparr>cr_name = name, cr_description = description,
      cr_labels = map Label_of_FrontendLabel labels,
      cr_connections = map Connection_of_FrontendConnection connections,
      cr_selected_option = Some selected_option\<rparr>"

text \<open>The fields a patch sets (pydantic's \<^verbatim>\<open>model_fields_set\<close>).\<close>

definition fields_set :: "SentraCoreUpdate \<Rightarrow> string set" where
  "fields_set u =
     (if up_name u = Unset then {} else {''name''}) \<union>
     (if up_description u = Unset then {} else {''description''}) \<union>
     (if up_labels u = Unset then {} else {''labels''}) \<union>
     (if up_connections u = Unset then {} else {''connections''}) \<union>
     (if up_selected_option u = Unset then {} else {''selected_option''})"

text \<open>
  The record a patch describes: a field the patch sets takes the patch's value, every
  other field stays, and \<^verbatim>\<open>updated_at\<close> becomes the time of the update. The
  fields \<^verbatim>\<open>name\<close>, \<^verbatim>\<open>labels\<close> and \<^verbatim>\<open>connections\<close> of a
  record cannot hold \<^verbatim>\<open>None\<close>; \<open>nulls_required\<close> says that a patch sets one of
  them to \<^verbatim>\<open>None\<close>, in which case there is no such record.
\<close>

definition nulls_required :: "SentraCoreUpdate \<Rightarrow> bool" where
  "nulls_required u =
     (up_name u = Provided None \<or> up_labels u = Provided None \<or>
      up_connections u = Provided None)"

definition merge_patch :: "SentraCoreUpdate \<Rightarrow> time \<Rightarrow> SentraCoreModel \<Rightarrow> SentraCoreModel" where
  "merge_patch u now m =
     m\<lparr>m_name := (case up_name u of Provided (Some n) \<Rightarrow> n | _ \<Rightarrow> m_name m),
       m_description :=
         (case up_description u of Provided v \<Rightarrow> v | Unset \<Rightarrow> m_description m),
       m_labels := (case up_labels u of Provided (Some ls) \<Rightarrow> ls | _ \<Rightarrow> m_labels m),
       m_connections :=
         (case up_connections u of Provided (Some cs) \<Rightarrow> cs | _ \<Rightarrow> m_connections m),
       m_selected_option :=
         (case up_selected_option u of Provided v \<Rightarrow> v | Unset \<Rightarrow> m_selected_option m),
       m_updated_at := now\<rparr>"

text \<open>
  The unique index on \<^verbatim>\<open>_id\<close>: no two documents of the collection carry the same
  identifier. \<^verbatim>\<open>insert_one\<close> and \<^verbatim>\<open>update_one\<close> keep it.
\<close>

definition unique_ids :: "pydict list \<Rightarrow> bool" where
  "unique_ids ds = distinct (map (\<lambda>d. map_of d ''_id'') ds)"

text \<open>The order of a page: most recent first.\<close>

definition newest_first :: "SentraCoreModel list \<Rightarrow> SentraCoreModel list" where
  "newest_first ms = sort_key (\<lambda>m. - int (m_created_at m)) ms"

section \<open>Sample data\<close>

text \<open>
  An empty collection whose clock reads 1000, 1001, ... and whose identifier generator
  yields 1, 2, ...; the configuration of the example in \<^verbatim>\<open>models/sentra_core.py\<close>;
  the collection after that configuration was created in it; and the collection after
  a second, later configuration was created.
\<close>

definition empty_world :: world where
  "empty_world =
     \<lparr>documents = [], reachable = True, clock = (\<lambda>n. 1000 + n), ticks = 0,
      fresh_ids = (\<lambda>n. of_nat (Suc n)), generated = 0\<rparr>"

definition forward_label :: LabelModel where
  "forward_label =
     \<lparr>l_id = ''1'', l_text = ''Forward'', l_value = ''100'', l_x = 150, l_y = 200,
      l_category = ''move''\<rparr>"

definition turn_label :: LabelModel where
  "turn_label =
     \<lparr>l_id = ''2'', l_text = ''Turn Right'', l_value = ''90'', l_x = 300, l_y = 200,
      l_category = ''turn''\<rparr>"

definition edge_1_2 :: ConnectionModel where
  "edge_1_2 = \<lparr>c_id = ''1-2'', c_from_id = ''1'', c_to_id = ''2''\<rparr>"

definition robot_request :: SentraCoreCreate where
  "robot_request =
     \<lparr>cr_name = ''Robot Movement Sequence'',
      cr_description = Some ''A sequence of robot movements and actions'',
      cr_labels = [forward_label, turn_label],
      cr_connections = [edge_1_2],
      cr_selected_option = Some ''move-forward''\<rparr>"

definition robot_record :: SentraCoreModel where
  "robot_record =
     \<lparr>m_id = IdOid 1, m_name = ''Robot Movement Sequence'',
      m_description = Some ''A sequence of robot movements and actions'',
      m_labels = [forward_label, turn_label],
      m_connections = [edge_1_2],
      m_selected_option = Some ''move-forward'',
      m_created_at = 1000, m_updated_at = 1001\<rparr>"

definition robot_world :: world where
  "robot_world =
     \<lparr>documents = [SentraCoreModel_dump robot_record], reachable = True,
      clock = (\<lambda>n. 1000 + n), ticks = 2, fresh_ids = (\<lambda>n. of_nat (Suc n)),
      generated = 1\<rparr>"

definition arm_record :: SentraCoreModel where
  "arm_record =
     \<lparr>m_id = IdOid 2, m_name = ''robot arm v2'', m_description = Some [],
      m_labels = [], m_connections = [], m_selected_option = Some [],
      m_created_at = 1002, m_updated_at = 1003\<rparr>"

definition two_records_world :: world where
  "two_records_world =
     \<lparr>documents = [SentraCoreModel_dump robot_record, SentraCoreModel_dump arm_record],
      reachable = True, clock = (\<lambda>n. 1000 + n), ticks = 4,
      fresh_ids = (\<lambda>n. of_nat (Suc n)), generated = 2\<rparr>"

definition no_patch :: SentraCoreUpdate where
  "no_patch =
     \<lparr>up_name = Unset, up_description = Unset, up_labels = Unset, up_connections = Unset,
      up_selected_option = Unset\<rparr>"

definition frontend_request :: SaveStateRequest where
  "frontend_request =
     \<lparr>ss_name = ''Robot Movement Sequence'',
      ss_description = Some ''A sequence of robot movements and actions'',
      ss_labels =
        [\<lparr>fl_id = ''1'', fl_text = ''Forward'', fl_value = ''100'', fl_x = 150, fl_y = 200,
          fl_category = ''move''\<rparr>,
         \<lparr>fl_id = ''2'', fl_text = ''Turn Right'', fl_value = ''90'', fl_x = 300, fl_y = 200,
          fl_category = ''turn''\<rparr>],
      ss_connections = [\<lparr>fc_id = ''1-2'', fc_from = ''1'', fc_to = ''2''\<rparr>],
      ss_selected_option = ''move-forward''\<rparr>"

section \<open>Identifiers and status codes\<close>

lemma hexval_digit: "k < 16 \<Longrightarrow> hexval (''0123456789abcdef'' ! k) \<noteq> None"
proof -
  assume "k < 16"
  then have "k = 0 \<or> k = 1 \<or> k = 2 \<or> k = 3 \<or> k = 4 \<or> k = 5 \<or> k = 6 \<or> k = 7 \<or> k = 8
    \<or> k = 9 \<or> k = 10 \<or> k = 11 \<or> k = 12 \<or> k = 13 \<or> k = 14 \<or> k = 15"
    by arith
  then show ?thesis
    by (auto simp: hexval_def)
qed

lemma is_valid_str_ObjectId: "is_valid (str_ObjectId oid)"
  by (simp add: is_valid_def str_ObjectId_def list_all_iff hexval_digit del: not_None_eq)

lemma not_valid_abc: "\<not> is_valid ''abc''"
  by (simp add: is_valid_def)

lemma no_whitespace_abc: "no_whitespace ''abc''"
  by (simp add: no_whitespace_def ascii_whitespace_def)

lemma valid_1: "is_valid ''000000000000000000000001''"
  by (simp add: is_valid_def hexval_def)

lemma fromhex_1: "fromhex ''000000000000000000000001'' = 1"
  by (simp add: fromhex_def hexval_def)

lemma valid_2: "is_valid ''000000000000000000000002''"
  by (simp add: is_valid_def hexval_def)

lemma fromhex_2: "fromhex ''000000000000000000000002'' = 2"
  by (simp add: fromhex_def hexval_def)

lemma show_404: "show_nat 404 = ''404''"
  by (simp add: show_nat.simps)

lemma str_not_found: "str_exn not_found = ''404: SentraCore configuration not found''"
  by (simp add: not_found_def show_404)

text \<open>
  The 404 that a handler raises inside its own \<^verbatim>\<open>try\<close> block is not a
  \<^verbatim>\<open>ValueError\<close>, so the clause \<^verbatim>\<open>except Exception\<close> catches it and raises
  a 500 whose detail is the text of the 404.
\<close>

lemma http_errors_not_found:
  "http_errors (Inl not_found) =
     Inl (HTTPException 500 ''404: SentraCore configuration not found'')"
  by (simp add: http_errors_def str_not_found) (simp add: not_found_def)

lemma find_absent: "\<not> list_ex P xs \<Longrightarrow> List.find P xs = None"
  by (simp add: find_None_iff list_ex_iff)

subsection \<open>A malformed identifier\<close>

text \<open>
  For a string without whitespace that is not 24 hexadecimal digits, the controller
  raises \<^verbatim>\<open>ValueError("Invalid ObjectId format")\<close> inside its
  \<^verbatim>\<open>try\<close> block; its own handler turns it into a plain \<^verbatim>\<open>Exception\<close>,
  which the route's \<^verbatim>\<open>except ValueError\<close> no longer matches. The world is left
  as it was: the store is not touched and the clock is not read.
\<close>

lemma malformed_get:
  "no_whitespace sid \<Longrightarrow> \<not> is_valid sid \<Longrightarrow>
   get_sentra_core_route sid w =
     (Inl (HTTPException 500
        ''Error retrieving SentraCore configuration: Invalid ObjectId format''), w)"
  by (simp add: get_sentra_core_route_def get_sentra_core_by_id_def reraise_def
      http_errors_def)

lemma malformed_update:
  "no_whitespace sid \<Longrightarrow> \<not> is_valid sid \<Longrightarrow>
   update_sentra_core_route sid u w =
     (Inl (HTTPException 500
        ''Error updating SentraCore configuration: Invalid ObjectId format''), w)"
  by (simp add: update_sentra_core_route_def update_sentra_core_def reraise_def
      http_errors_def)

lemma malformed_delete:
  "no_whitespace sid \<Longrightarrow> \<not> is_valid sid \<Longrightarrow>
   delete_sentra_core_route sid w =
     (Inl (HTTPException 500
        ''Error deleting SentraCore configuration: Invalid ObjectId format''), w)"
  by (simp add: delete_sentra_core_route_def delete_sentra_core_def reraise_def
      http_errors_def)

text \<open>
  C1. The claim: a malformed identifier makes \<^verbatim>\<open>get_by_id\<close>, \<^verbatim>\<open>update\<close> and
  \<^verbatim>\<open>delete\<close> fail with a validation error answered 400, before any store access,
  and never with 404 or 500. What the code does on the identifier \<^verbatim>\<open>abc\<close>: the
  store is indeed left alone, but all three routes answer 500.
\<close>

theorem malformed_id_is_answered_500:
  "get_sentra_core_route ''abc'' robot_world =
     (Inl (HTTPException 500
        ''Error retrieving SentraCore configuration: Invalid ObjectId format''),
      robot_world) \<and>
   update_sentra_core_route ''abc'' no_patch robot_world =
     (Inl (HTTPException 500
        ''Error updating SentraCore configuration: Invalid ObjectId format''),
      robot_world) \<and>
   delete_sentra_core_route ''abc'' robot_world =
     (Inl (HTTPException 500
        ''Error deleting SentraCore configuration: Invalid ObjectId format''),
      robot_world)"
  by (simp add: malformed_get malformed_update malformed_delete not_valid_abc
      no_whitespace_abc)

subsection \<open>A well-formed identifier that no document carries\<close>

lemma absent_get:
  assumes "is_valid sid" and "reachable w"
    and "\<not> list_ex (has_id (VOid (fromhex sid))) (documents w)"
  shows "get_sentra_core_route sid w =
     (Inl (HTTPException 500 ''404: SentraCore configuration not found''), w)"
  using assms
  by (simp add: get_sentra_core_route_def get_sentra_core_by_id_def reraise_def
      ObjectId_of_str_def find_one_def find_absent http_errors_not_found)

lemma absent_update:
  assumes "is_valid sid" and "reachable w"
    and "\<not> list_ex (has_id (VOid (fromhex sid))) (documents w)"
  shows "update_sentra_core_route sid u w =
     (Inl (HTTPException 500 ''404: SentraCore configuration not found''),
      w\<lparr>ticks := Suc (ticks w)\<rparr>)"
  using assms
  by (simp add: update_sentra_core_route_def update_sentra_core_def reraise_def utcnow_def
      ObjectId_of_str_def update_one_def find_absent http_errors_not_found)

lemma absent_delete:
  assumes "is_valid sid" and "reachable w"
    and "\<not> list_ex (has_id (VOid (fromhex sid))) (documents w)"
  shows "delete_sentra_core_route sid w =
     (Inl (HTTPException 500 ''404: SentraCore configuration not found''), w)"
  using assms
  by (simp add: delete_sentra_core_route_def delete_sentra_core_def reraise_def
      ObjectId_of_str_def delete_one_def find_absent http_errors_not_found)

lemma unreachable_get:
  assumes "is_valid sid" and "\<not> reachable w"
  shows "get_sentra_core_route sid w =
     (Inl (HTTPException 500
        ''Error retrieving SentraCore configuration: ServerSelectionTimeoutError''), w)"
  using assms
  by (simp add: get_sentra_core_route_def get_sentra_core_by_id_def reraise_def
      ObjectId_of_str_def find_one_def unreachable_def http_errors_def)

lemma robot_world_reachable: "reachable robot_world"
  by (simp add: robot_world_def)

lemma robot_world_no_2:
  "\<not> list_ex (has_id (VOid (fromhex ''000000000000000000000002''))) (documents robot_world)"
  by (simp add: fromhex_2 robot_world_def has_id_def SentraCoreModel_dump_def
      robot_record_def dump_id_def)

text \<open>
  C2. The claim: for a well-formed identifier that matches no record, GET, PUT and DELETE
  answer 404, told apart from an unexpected failure, which answers 500. What the code
  does on the identifier \<^verbatim>\<open>000000000000000000000002\<close>, which the sample collection
  does not hold: all three routes answer 500, the status that a store that does not
  answer gets as well.
\<close>

theorem absent_record_is_answered_500:
  "status_of 200 (fst (get_sentra_core_route ''000000000000000000000002'' robot_world)) = 500 \<and>
   status_of 200
     (fst (update_sentra_core_route ''000000000000000000000002'' no_patch robot_world)) = 500 \<and>
   status_of 200
     (fst (delete_sentra_core_route ''000000000000000000000002'' robot_world)) = 500 \<and>
   status_of 200
     (fst (get_sentra_core_route ''000000000000000000000002''
        (robot_world\<lparr>reachable := False\<rparr>))) = 500"
  by (simp add: absent_get absent_update absent_delete unreachable_get valid_2
      robot_world_no_2 robot_world_reachable status_of_def)

section \<open>Creating a configuration\<close>

subsection \<open>Dumping and validating\<close>

text \<open>What \<^verbatim>\<open>model_dump\<close> writes, validation reads back unchanged.\<close>

lemma LabelModel_roundtrip: "LabelModel_validate (LabelModel_dump l) = Some l"
  by (simp add: LabelModel_validate_def LabelModel_dump_def get_str_def get_num_def)

lemma ConnectionModel_roundtrip: "ConnectionModel_validate (ConnectionModel_dump c) = Some c"
  by (simp add: ConnectionModel_validate_def ConnectionModel_dump_def get_str_def)

lemma those_map_Some: "(\<And>x. f (g x) = Some x) \<Longrightarrow> those (map (f \<circ> g) xs) = Some xs"
  by (induction xs) simp_all

lemma labels_roundtrip:
  "those (map (LabelModel_validate \<circ> LabelModel_dump) ls) = Some ls"
  by (rule those_map_Some) (rule LabelModel_roundtrip)

lemma connections_roundtrip:
  "those (map (ConnectionModel_validate \<circ> ConnectionModel_dump) cs) = Some cs"
  by (rule those_map_Some) (rule ConnectionModel_roundtrip)

lemma get_opt_str_dump:
  "map_of d k = Some (dump_opt_str s) \<Longrightarrow> get_opt_str d k = Some s"
  by (cases s) (simp_all add: get_opt_str_def dump_opt_str_def)

lemma validate_id_dump: "validate_id (dump_id i) = Some i"
  by (cases i) (simp_all add: validate_id_def dump_id_def)

lemma SentraCoreModel_roundtrip:
  "SentraCoreModel_validate (SentraCoreModel_dump m) w = (Inr m, w)"
  by (simp add: SentraCoreModel_validate_def SentraCoreModel_dump_def id_field_def
      datetime_field_def get_str_def get_opt_str_dump get_list_def labels_roundtrip
      connections_roundtrip validate_id_dump)

subsection \<open>create\<close>

lemma find_append_new:
  "\<not> list_ex P xs \<Longrightarrow> P x \<Longrightarrow> List.find P (xs @ [x]) = Some x"
  by (induction xs) simp_all

lemma has_id_dump: "has_id v (SentraCoreModel_dump m) = (v = dump_id (m_id m))"
  by (auto simp: has_id_def SentraCoreModel_dump_def)

text \<open>
  What \<^verbatim>\<open>create_sentra_core\<close> returns and leaves behind when the store answers
  and the identifier that \<^verbatim>\<open>ObjectId()\<close> generates is not in use: the record
  built from the request, re-read from the store, with the two timestamps read from the
  clock one after the other.
\<close>

lemma create_result:
  assumes "reachable w"
    and "\<not> list_ex (has_id (VOid (fresh_ids w (generated w)))) (documents w)"
  shows "create_sentra_core data w =
     (let m = \<lparr>m_id = IdOid (fresh_ids w (generated w)), m_name = cr_name data,
               m_description = cr_description data, m_labels = cr_labels data,
               m_connections = cr_connections data,
               m_selected_option = cr_selected_option data,
               m_created_at = clock w (ticks w), m_updated_at = clock w (Suc (ticks w))\<rparr>
      in (Inr m, w\<lparr>documents := documents w @ [SentraCoreModel_dump m],
                    ticks := Suc (Suc (ticks w)), generated := Suc (generated w)\<rparr>))"
proof -
  define m where "m = \<lparr>m_id = IdOid (fresh_ids w (generated w)), m_name = cr_name data,
               m_description = cr_description data, m_labels = cr_labels data,
               m_connections = cr_connections data,
               m_selected_option = cr_selected_option data,
               m_created_at = clock w (ticks w), m_updated_at = clock w (Suc (ticks w))\<rparr>"
  define w3 where "w3 = w\<lparr>generated := Suc (generated w), ticks := Suc (Suc (ticks w))\<rparr>"
  have new: "SentraCoreModel_new (cr_name data) (cr_description data) (cr_labels data)
      (cr_connections data) (cr_selected_option data) w = (m, w3)"
    by (simp add: SentraCoreModel_new_def new_ObjectId_def utcnow_def m_def w3_def)
  have id: "map_of (SentraCoreModel_dump m) ''_id'' = Some (VOid (fresh_ids w (generated w)))"
    by (simp add: SentraCoreModel_dump_def m_def dump_id_def)
  have ins: "insert_one (SentraCoreModel_dump m) w3 =
      (Inr (VOid (fresh_ids w (generated w))), w3\<lparr>documents := documents w @ [SentraCoreModel_dump m]\<rparr>)"
    using assms by (simp add: insert_one_def id store_new_def w3_def)
  have fnd: "find_one (VOid (fresh_ids w (generated w)))
       (w3\<lparr>documents := documents w @ [SentraCoreModel_dump m]\<rparr>) = Inr (Some (SentraCoreModel_dump m))"
    using assms by (simp add: find_one_def w3_def find_append_new has_id_def id)
  show ?thesis
    unfolding create_sentra_core_def new Let_def m_def [symmetric]
    by (simp add: ins [unfolded w3_def] fnd [unfolded w3_def] SentraCoreModel_of_found_def
        SentraCoreModel_roundtrip reraise_def w3_def)
qed


text \<open>
  C3, as amended. For every create request, when the store answers and the generated
  identifier is not yet in use, \<^verbatim>\<open>create\<close> returns a configuration whose
  identifier is an \<^verbatim>\<open>ObjectId\<close> that prints as a well-formed 24-digit
  hexadecimal string, and whose name, description, labels, connections and selected
  option are those of the request, field for field and in the given order. Its
  \<^verbatim>\<open>created_at\<close> is the reading of the clock taken first and its
  \<^verbatim>\<open>updated_at\<close> the reading taken next: the two are equal exactly when the
  clock did not advance between the two readings.
\<close>

theorem create_returns_request:
  assumes "reachable w"
    and "\<not> list_ex (has_id (VOid (fresh_ids w (generated w)))) (documents w)"
  shows "\<exists>m w'. create_sentra_core data w = (Inr m, w') \<and>
           (\<exists>oid. m_id m = IdOid oid \<and> is_valid (str_ObjectId oid)) \<and>
           m_name m = cr_name data \<and>
           m_description m = cr_description data \<and>
           m_labels m = cr_labels data \<and>
           m_connections m = cr_connections data \<and>
           m_selected_option m = cr_selected_option data \<and>
           m_created_at m = clock w (ticks w) \<and>
           m_updated_at m = clock w (Suc (ticks w))"
  using create_result [OF assms, of data]
  by (simp add: Let_def is_valid_str_ObjectId)

lemma empty_world_fresh:
  "\<not> list_ex (has_id (VOid (fresh_ids empty_world (generated empty_world)))) (documents empty_world)"
  by (simp add: empty_world_def)

lemma empty_world_reachable: "reachable empty_world"
  by (simp add: empty_world_def)

theorem create_returns_request_witness:
  "reachable empty_world \<and>
   \<not> list_ex (has_id (VOid (fresh_ids empty_world (generated empty_world))))
       (documents empty_world) \<and>
   (\<exists>m w'. create_sentra_core robot_request empty_world = (Inr m, w') \<and>
      m_name m = ''Robot Movement Sequence'' \<and>
      m_labels m = [forward_label, turn_label] \<and>
      m_connections m = [edge_1_2] \<and>
      m_created_at m = 1000 \<and> m_updated_at m = 1001)"
  using create_returns_request [OF empty_world_reachable empty_world_fresh, of robot_request]
  by (auto simp: empty_world_def robot_request_def)

text \<open>
  C3 as stated also promises \<^verbatim>\<open>created_at == updated_at\<close>. On the empty sample
  collection, whose clock reads 1000 and then 1001, the record created from the sample
  request carries both readings.
\<close>

theorem create_timestamps_differ:
  "fst (create_sentra_core robot_request empty_world) = Inr robot_record \<and>
   m_created_at robot_record \<noteq> m_updated_at robot_record"
  using create_result [OF empty_world_reachable empty_world_fresh, of robot_request]
  by (simp add: Let_def empty_world_def robot_request_def robot_record_def)

subsection \<open>save_current_state\<close>

text \<open>
  The loops build, element by element, the dumps of the translated labels and
  connections, and \<^verbatim>\<open>SentraCoreCreate\<close> validates them back into models.
\<close>

lemma convert_labels_eq:
  "convert_labels labels acc = acc @ map (LabelModel_dump \<circ> Label_of_FrontendLabel) labels"
  by (induction labels arbitrary: acc)
     (simp_all add: LabelModel_dump_def Label_of_FrontendLabel_def)

lemma convert_connections_eq:
  "convert_connections cs acc =
     acc @ map (ConnectionModel_dump \<circ> Connection_of_FrontendConnection) cs"
  by (induction cs arbitrary: acc)
     (simp_all add: ConnectionModel_dump_def Connection_of_FrontendConnection_def)

lemma validate_converted_labels:
  "those (map LabelModel_validate (convert_labels labels [])) =
     Some (map Label_of_FrontendLabel labels)"
  unfolding convert_labels_eq
  by (induction labels) (simp_all add: LabelModel_roundtrip)

lemma validate_converted_connections:
  "those (map ConnectionModel_validate (convert_connections connections [])) =
     Some (map Connection_of_FrontendConnection connections)"
  unfolding convert_connections_eq
  by (induction connections) (simp_all add: ConnectionModel_roundtrip)

lemma validate_converted:
  "SentraCoreCreate_validate
     [(''name'', VStr name),
      (''description'', dump_opt_str description),
      (''labels'', VList (convert_labels labels [])),
      (''connections'', VList (convert_connections connections [])),
      (''selected_option'', VStr selected_option)] =
   Inr (CreateRequest_of_frontend name labels connections selected_option description)"
  (is "SentraCoreCreate_validate ?kw = _")
proof -
  have n: "get_str ?kw ''name'' = Some name"
    by (simp add: get_str_def)
  have d: "get_opt_str ?kw ''description'' = Some description"
    by (rule get_opt_str_dump) simp
  have ls: "get_list LabelModel_validate ?kw ''labels'' =
      Some (map Label_of_FrontendLabel labels)"
    by (simp add: get_list_def validate_converted_labels)
  have cs: "get_list ConnectionModel_validate ?kw ''connections'' =
      Some (map Connection_of_FrontendConnection connections)"
    by (simp add: get_list_def validate_converted_connections)
  have so: "get_opt_str ?kw ''selected_option'' = Some (Some selected_option)"
    by (simp add: get_opt_str_def)
  show ?thesis
    unfolding SentraCoreCreate_validate_def n d ls cs so
    by (simp add: CreateRequest_of_frontend_def)
qed

text \<open>
  C8. For every input of the front end, \<^verbatim>\<open>save_current_state\<close> is
  \<^verbatim>\<open>create_sentra_core\<close> applied to the translation of that input as the
  specification words it (\<open>CreateRequest_of_frontend\<close>): the same record returned,
  the same world left behind. Where \<^verbatim>\<open>create_sentra_core\<close> raises,
  \<^verbatim>\<open>save_current_state\<close> raises too, with its own prefix put before the message.
\<close>

theorem save_current_state_is_create_of_translation:
  "save_current_state name labels connections selected_option description w =
     reraise ''Error saving current state: ''
       (create_sentra_core
          (CreateRequest_of_frontend name labels connections selected_option description) w)"
  by (simp add: save_current_state_def validate_converted)


subsection \<open>The name of a configuration\<close>

lemma missing_name_fails:
  "map_of kw ''name'' = None \<Longrightarrow>
   SentraCoreCreate_validate kw =
     Inl (ValidationError ''validation error for SentraCoreCreate'')"
  by (simp add: SentraCoreCreate_validate_def get_str_def)

lemma create_route_result:
  assumes "reachable w"
    and "\<not> list_ex (has_id (VOid (fresh_ids w (generated w)))) (documents w)"
  shows "\<exists>m w'. create_sentra_core_route data w = (Inr m, w') \<and>
           m_name m = cr_name data \<and>
           documents w' = documents w @ [SentraCoreModel_dump m]"
  using create_result [OF assms, of data]
  by (simp add: create_sentra_core_route_def Let_def)

lemma save_route_result:
  assumes "reachable w"
    and "\<not> list_ex (has_id (VOid (fresh_ids w (generated w)))) (documents w)"
  shows "\<exists>m w'. save_current_state_route request w = (Inr m, w') \<and>
           m_name m = ss_name request \<and>
           documents w' = documents w @ [SentraCoreModel_dump m]"
  using create_result [OF assms,
      of "CreateRequest_of_frontend (ss_name request) (ss_labels request)
            (ss_connections request) (ss_selected_option request) (ss_description request)"]
  by (simp add: save_current_state_route_def save_current_state_def validate_converted
      reraise_def Let_def CreateRequest_of_frontend_def)

lemma name_of_dump: "map_of (SentraCoreModel_dump m) ''name'' = Some (VStr (m_name m))"
  by (simp add: SentraCoreModel_dump_def)

text \<open>
  C9, as amended. The name of a create request is required: keyword arguments without
  a \<^verbatim>\<open>name\<close> do not validate as a \<^verbatim>\<open>SentraCoreCreate\<close>. It need not
  be non-empty: for every request of either kind, whatever its name, the empty string
  included, when the store answers and the generated identifier is not in use, direct
  create and front-end save answer 201 and append to the collection a document whose
  name is the name of the request.
\<close>

theorem name_is_required_but_may_be_empty:
  assumes "reachable w"
    and "\<not> list_ex (has_id (VOid (fresh_ids w (generated w)))) (documents w)"
    and "map_of kw ''name'' = None"
  shows "SentraCoreCreate_validate kw =
           Inl (ValidationError ''validation error for SentraCoreCreate'') \<and>
         (\<exists>m w'. create_sentra_core_route data w = (Inr m, w') \<and>
            status_of 201 (fst (create_sentra_core_route data w)) = 201 \<and>
            m_name m = cr_name data \<and>
            documents w' = documents w @ [SentraCoreModel_dump m] \<and>
            map_of (SentraCoreModel_dump m) ''name'' = Some (VStr (cr_name data))) \<and>
         (\<exists>m w'. save_current_state_route request w = (Inr m, w') \<and>
            status_of 201 (fst (save_current_state_route request w)) = 201 \<and>
            m_name m = ss_name request \<and>
            documents w' = documents w @ [SentraCoreModel_dump m] \<and>
            map_of (SentraCoreModel_dump m) ''name'' = Some (VStr (ss_name request)))"
proof (intro conjI)
  show "SentraCoreCreate_validate kw =
      Inl (ValidationError ''validation error for SentraCoreCreate'')"
    using assms(3) by (rule missing_name_fails)
next
  from create_route_result [OF assms(1,2), of data]
  obtain m w' where "create_sentra_core_route data w = (Inr m, w')"
    and "m_name m = cr_name data"
    and "documents w' = documents w @ [SentraCoreModel_dump m]"
    by blast
  then show "\<exists>m w'. create_sentra_core_route data w = (Inr m, w') \<and>
            status_of 201 (fst (create_sentra_core_route data w)) = 201 \<and>
            m_name m = cr_name data \<and>
            documents w' = documents w @ [SentraCoreModel_dump m] \<and>
            map_of (SentraCoreModel_dump m) ''name'' = Some (VStr (cr_name data))"
    by (simp add: status_of_def name_of_dump)
next
  from save_route_result [OF assms(1,2), of request]
  obtain m w' where "save_current_state_route request w = (Inr m, w')"
    and "m_name m = ss_name request"
    and "documents w' = documents w @ [SentraCoreModel_dump m]"
    by blast
  then show "\<exists>m w'. save_current_state_route request w = (Inr m, w') \<and>
            status_of 201 (fst (save_current_state_route request w)) = 201 \<and>
            m_name m = ss_name request \<and>
            documents w' = documents w @ [SentraCoreModel_dump m] \<and>
            map_of (SentraCoreModel_dump m) ''name'' = Some (VStr (ss_name request))"
    by (simp add: status_of_def name_of_dump)
qed

theorem name_is_required_but_may_be_empty_witness:
  "reachable empty_world \<and>
   \<not> list_ex (has_id (VOid (fresh_ids empty_world (generated empty_world))))
       (documents empty_world) \<and>
   map_of ([] :: pydict) ''name'' = None \<and>
   SentraCoreCreate_validate [] =
     Inl (ValidationError ''validation error for SentraCoreCreate'') \<and>
   (\<exists>m w'. create_sentra_core_route (robot_request\<lparr>cr_name := []\<rparr>) empty_world = (Inr m, w') \<and>
      m_name m = [] \<and>
      map_of (SentraCoreModel_dump m) ''name'' = Some (VStr [])) \<and>
   (\<exists>m w'. save_current_state_route (frontend_request\<lparr>ss_name := []\<rparr>) empty_world =
        (Inr m, w') \<and>
      m_name m = [] \<and>
      map_of (SentraCoreModel_dump m) ''name'' = Some (VStr []))"
  using name_is_required_but_may_be_empty [OF empty_world_reachable empty_world_fresh,
      of "[]" "robot_request\<lparr>cr_name := []\<rparr>" "frontend_request\<lparr>ss_name := []\<rparr>"]
  by (auto simp: empty_world_def)

text \<open>
  C9 as stated has a request with an empty name refused with 400 and never persisted.
  The sample request with its name replaced by the empty string is answered 201, and the
  one document of the collection afterwards has the empty name.
\<close>

theorem empty_name_is_persisted:
  "status_of 201 (fst (create_sentra_core_route (robot_request\<lparr>cr_name := []\<rparr>) empty_world))
     = 201 \<and>
   map (\<lambda>d. map_of d ''name'')
     (documents (snd (create_sentra_core_route (robot_request\<lparr>cr_name := []\<rparr>) empty_world)))
     = [Some (VStr [])]"
  using create_result [OF empty_world_reachable empty_world_fresh,
      of "robot_request\<lparr>cr_name := []\<rparr>"]
  by (simp add: create_sentra_core_route_def Let_def status_of_def empty_world_def
      SentraCoreModel_dump_def)

section \<open>Updating a configuration\<close>

subsection \<open>What the update writes\<close>

lemma keys_dump_field: "map fst (dump_field k enc f) = (if f = Unset then [] else [k])"
  by (cases f) (simp_all add: dump_field_def split: option.splits)

lemma keys_dump_exclude_unset:
  "map fst (SentraCoreUpdate_dump_exclude_unset u) =
     (if up_name u = Unset then [] else [''name'']) @
     (if up_description u = Unset then [] else [''description'']) @
     (if up_labels u = Unset then [] else [''labels'']) @
     (if up_connections u = Unset then [] else [''connections'']) @
     (if up_selected_option u = Unset then [] else [''selected_option''])"
  by (simp add: SentraCoreUpdate_dump_exclude_unset_def keys_dump_field)

lemma set_keys_dump_exclude_unset:
  "fst ` set (SentraCoreUpdate_dump_exclude_unset u) = fields_set u"
proof -
  have "fst ` set (SentraCoreUpdate_dump_exclude_unset u) =
      set (map fst (SentraCoreUpdate_dump_exclude_unset u))"
    by simp
  also have "\<dots> = fields_set u"
    unfolding keys_dump_exclude_unset fields_set_def by auto
  finally show ?thesis .
qed

lemma fields_set_subset:
  "fields_set u \<subseteq> {''name'', ''description'', ''labels'', ''connections'', ''selected_option''}"
  by (auto simp: fields_set_def split: if_splits)

lemma keys_update_dict: "fst ` set (update_dict u now) = fields_set u \<union> {''updated_at''}"
  by (auto simp: update_dict_def AList.dom_update set_keys_dump_exclude_unset)

lemma id_not_written: "''_id'' \<notin> fst ` set (update_dict u now)"
  using fields_set_subset [of u] by (auto simp: keys_update_dict)

lemma created_at_not_written: "''created_at'' \<notin> fst ` set (update_dict u now)"
  using fields_set_subset [of u] by (auto simp: keys_update_dict)

lemma update_dict_updated_at:
  "map_of (update_dict u now) ''updated_at'' = Some (VDate now)"
  by (simp add: update_dict_def AList.update_conv')

lemma distinct_keys_update_dict: "distinct (map fst (update_dict u now))"
  unfolding update_dict_def
  by (rule AList.distinct_update) (simp add: keys_dump_exclude_unset)

text \<open>
  The document after \<^verbatim>\<open>$set\<close>: a field the update names has the value of its last
  entry; every other field is as before.
\<close>

lemma map_of_apply_set:
  "map_of (apply_set upd d) k =
     (case map_of (rev upd) k of None \<Rightarrow> map_of d k | Some v \<Rightarrow> Some v)"
proof (induction upd arbitrary: d)
  case Nil
  then show ?case by (simp add: apply_set_def)
next
  case (Cons p upd)
  obtain k' v' where p: "p = (k', v')" by (cases p)
  have "apply_set (p # upd) d = apply_set upd (AList.update k' v' d)"
    by (simp add: apply_set_def p)
  then show ?case
    by (auto simp: Cons.IH AList.update_conv' p map_add_def split: option.splits)
qed

lemma map_of_rev_distinct: "distinct (map fst xs) \<Longrightarrow> map_of (rev xs) = map_of xs"
proof (induction xs)
  case Nil
  then show ?case by simp
next
  case (Cons p xs)
  obtain k v where p: "p = (k, v)" by (cases p)
  from Cons.prems have "k \<notin> dom (map_of xs)"
    by (simp add: p dom_map_of_conv_image_fst)
  then have "[k \<mapsto> v] ++ map_of xs = (map_of xs)(k \<mapsto> v)"
    by (auto simp: map_add_def fun_eq_iff split: option.splits)
  with Cons show ?case
    by (simp add: p)
qed

lemma apply_set_frame:
  "k \<notin> fst ` set upd \<Longrightarrow> map_of (apply_set upd d) k = map_of d k"
proof -
  assume "k \<notin> fst ` set upd"
  then have "map_of (rev upd) k = None"
    by (simp add: map_of_eq_None_iff)
  then show ?thesis
    by (simp add: map_of_apply_set)
qed

lemma apply_set_written:
  "distinct (map fst upd) \<Longrightarrow> map_of upd k = Some v \<Longrightarrow> map_of (apply_set upd d) k = Some v"
  by (simp add: map_of_apply_set map_of_rev_distinct)


subsection \<open>update\<close>

lemma find_replace_first:
  "List.find P xs = Some d \<Longrightarrow> P d' \<Longrightarrow> List.find P (replace_first P d' xs) = Some d'"
  by (induction xs) (auto split: if_splits)

lemma documents_id_field: "documents (snd (id_field d w)) = documents w"
  by (simp add: id_field_def new_ObjectId_def split: option.splits)

lemma documents_datetime_field: "documents (snd (datetime_field d k w)) = documents w"
  by (simp add: datetime_field_def utcnow_def split: option.splits bval.splits)

lemma documents_validate: "documents (snd (SentraCoreModel_validate d w)) = documents w"
proof -
  obtain i w1 where a: "id_field d w = (i, w1)" by (cases "id_field d w")
  obtain ca w2 where b: "datetime_field d ''created_at'' w1 = (ca, w2)"
    by (cases "datetime_field d ''created_at'' w1")
  obtain ua w3 where c: "datetime_field d ''updated_at'' w2 = (ua, w3)"
    by (cases "datetime_field d ''updated_at'' w2")
  have "documents w3 = documents w"
    using documents_id_field [of d w] documents_datetime_field [of d "''created_at''" w1]
      documents_datetime_field [of d "''updated_at''" w2]
    by (simp add: a b c)
  then show ?thesis
    by (simp add: SentraCoreModel_validate_def a b c split: option.splits)
qed

text \<open>
  What \<^verbatim>\<open>update_sentra_core\<close> returns and leaves behind when the identifier is
  well formed, the store answers and a document carries the identifier: the clock is
  read once, the document is replaced by the one that \<^verbatim>\<open>$set\<close> produces, and the
  method returns \<^verbatim>\<open>None\<close> when the two are equal and otherwise what
  \<^verbatim>\<open>SentraCoreModel(**updated_doc)\<close> makes of the new document.
\<close>

lemma update_result:
  assumes "is_valid sid" and "reachable w"
    and "List.find (has_id (VOid (fromhex sid))) (documents w) = Some d"
  shows "update_sentra_core sid u w =
     (let d' = apply_set (update_dict u (clock w (ticks w))) d;
          w2 = w\<lparr>ticks := Suc (ticks w),
                 documents := replace_first (has_id (VOid (fromhex sid))) d' (documents w)\<rparr>
      in if d' = d then (Inr None, w2)
         else (case SentraCoreModel_validate d' w2 of
                 (Inl e, w3) \<Rightarrow>
                   (Inl (Exception
                      (''Error updating SentraCore configuration: '' @ str_exn e)), w3)
               | (Inr m, w3) \<Rightarrow> (Inr (Some m), w3)))"
proof -
  define d' where "d' = apply_set (update_dict u (clock w (ticks w))) d"
  define w2 where "w2 = w\<lparr>ticks := Suc (ticks w),
      documents := replace_first (has_id (VOid (fromhex sid))) d' (documents w)\<rparr>"
  have id: "map_of d' ''_id'' = map_of d ''_id''"
    unfolding d'_def by (rule apply_set_frame) (rule id_not_written)
  from assms(3) have "has_id (VOid (fromhex sid)) d"
    by (auto simp: find_Some_iff)
  then have has: "has_id (VOid (fromhex sid)) d'"
    by (simp add: has_id_def id)
  have upd: "update_one (VOid (fromhex sid)) (update_dict u (clock w (ticks w)))
      (w\<lparr>ticks := Suc (ticks w)\<rparr>) =
      (Inr \<lparr>matched_count = 1, modified_count = (if d' = d then 0 else 1)\<rparr>, w2)"
    using assms(2,3) by (simp add: update_one_def d'_def [symmetric] id w2_def)
  have fnd: "find_one (VOid (fromhex sid)) w2 = Inr (Some d')"
    using assms(2) find_replace_first [OF assms(3) has] by (simp add: find_one_def w2_def)
  show ?thesis
    unfolding Let_def d'_def [symmetric] w2_def [symmetric]
    using assms(1)
    by (cases "SentraCoreModel_validate d' w2" rule: prod.exhaust)
       (auto simp: update_sentra_core_def utcnow_def ObjectId_of_str_def upd fnd
          SentraCoreModel_of_found_def reraise_def split: sum.splits)
qed

lemma update_documents:
  assumes "is_valid sid" and "reachable w"
    and "List.find (has_id (VOid (fromhex sid))) (documents w) = Some d"
  shows "documents (snd (update_sentra_core sid u w)) =
     replace_first (has_id (VOid (fromhex sid)))
       (apply_set (update_dict u (clock w (ticks w))) d) (documents w)"
proof -
  define d' where "d' = apply_set (update_dict u (clock w (ticks w))) d"
  define w2 where "w2 = w\<lparr>ticks := Suc (ticks w),
      documents := replace_first (has_id (VOid (fromhex sid))) d' (documents w)\<rparr>"
  have "documents (snd (SentraCoreModel_validate d' w2)) = documents w2"
    by (rule documents_validate)
  then show ?thesis
    unfolding update_result [OF assms] Let_def d'_def [symmetric] w2_def [symmetric]
    by (cases "SentraCoreModel_validate d' w2" rule: prod.exhaust)
       (auto simp: w2_def split: sum.splits)
qed


lemma update_dict_name_only:
  "update_dict (no_patch\<lparr>up_name := Provided v\<rparr>) now =
     [(''name'', dump_opt_str v), (''updated_at'', VDate now)]"
  by (cases v)
     (simp_all add: update_dict_def SentraCoreUpdate_dump_exclude_unset_def dump_field_def
        no_patch_def dump_opt_str_def)

lemma update_dict_no_patch: "update_dict no_patch now = [(''updated_at'', VDate now)]"
  by (simp add: update_dict_def SentraCoreUpdate_dump_exclude_unset_def dump_field_def
      no_patch_def)

lemma has_id_apply_set_update_dict:
  assumes "List.find (has_id v) ds = Some d"
  shows "List.find (has_id v) (replace_first (has_id v) (apply_set (update_dict u now) d) ds) =
     Some (apply_set (update_dict u now) d)"
proof -
  have "map_of (apply_set (update_dict u now) d) ''_id'' = map_of d ''_id''"
    by (rule apply_set_frame) (rule id_not_written)
  moreover from assms have "has_id v d"
    by (auto simp: find_Some_iff)
  ultimately have "has_id v (apply_set (update_dict u now) d)"
    by (simp add: has_id_def)
  with assms show ?thesis
    by (rule find_replace_first)
qed

text \<open>
  C5. For every existing record and every patch that sets only the name (to a string or
  to \<^verbatim>\<open>None\<close>), the update changes exactly \<^verbatim>\<open>name\<close> and
  \<^verbatim>\<open>updated_at\<close> of that record: the collection afterwards is the one before with
  the record replaced, the record found under the identifier has the new name and the
  reading of the clock as \<^verbatim>\<open>updated_at\<close>, and every other field of it, labels,
  connections, \<^verbatim>\<open>created_at\<close> and \<^verbatim>\<open>_id\<close> among them, is as it was.
\<close>

theorem update_of_name_changes_name_and_updated_at:
  assumes "is_valid sid" and "reachable w"
    and "List.find (has_id (VOid (fromhex sid))) (documents w) = Some d"
  shows
    "let now = clock w (ticks w);
         d' = AList.update ''updated_at'' (VDate now) (AList.update ''name'' (dump_opt_str v) d);
         after = documents (snd (update_sentra_core sid (no_patch\<lparr>up_name := Provided v\<rparr>) w))
     in after = replace_first (has_id (VOid (fromhex sid))) d' (documents w) \<and>
        List.find (has_id (VOid (fromhex sid))) after = Some d' \<and>
        map_of d' ''name'' = Some (dump_opt_str v) \<and>
        map_of d' ''updated_at'' = Some (VDate now) \<and>
        map_of d' ''labels'' = map_of d ''labels'' \<and>
        map_of d' ''connections'' = map_of d ''connections'' \<and>
        map_of d' ''created_at'' = map_of d ''created_at'' \<and>
        map_of d' ''_id'' = map_of d ''_id'' \<and>
        (\<forall>k. k \<noteq> ''name'' \<and> k \<noteq> ''updated_at'' \<longrightarrow> map_of d' k = map_of d k)"
proof -
  define now where "now = clock w (ticks w)"
  define d' where
    "d' = AList.update ''updated_at'' (VDate now) (AList.update ''name'' (dump_opt_str v) d)"
  have set: "apply_set (update_dict (no_patch\<lparr>up_name := Provided v\<rparr>) now) d = d'"
    by (simp add: update_dict_name_only apply_set_def d'_def)
  have after: "documents (snd (update_sentra_core sid (no_patch\<lparr>up_name := Provided v\<rparr>) w)) =
      replace_first (has_id (VOid (fromhex sid))) d' (documents w)"
    using update_documents [OF assms, of "no_patch\<lparr>up_name := Provided v\<rparr>"]
    by (simp add: now_def [symmetric] set)
  have found: "List.find (has_id (VOid (fromhex sid)))
      (replace_first (has_id (VOid (fromhex sid))) d' (documents w)) = Some d'"
    using has_id_apply_set_update_dict [OF assms(3), of "no_patch\<lparr>up_name := Provided v\<rparr>" now]
    by (simp add: set)
  have frame: "\<forall>k. k \<noteq> ''name'' \<and> k \<noteq> ''updated_at'' \<longrightarrow> map_of d' k = map_of d k"
    by (simp add: d'_def AList.update_conv')
  show ?thesis
    unfolding Let_def now_def [symmetric] d'_def [symmetric] after
    using found frame by (simp add: d'_def AList.update_conv')
qed

lemma robot_world_find_1:
  "List.find (has_id (VOid (fromhex ''000000000000000000000001''))) (documents robot_world) =
     Some (SentraCoreModel_dump robot_record)"
  by (simp add: fromhex_1 robot_world_def has_id_def SentraCoreModel_dump_def robot_record_def
      dump_id_def)

theorem update_of_name_changes_name_and_updated_at_witness:
  "is_valid ''000000000000000000000001'' \<and> reachable robot_world \<and>
   List.find (has_id (VOid (fromhex ''000000000000000000000001''))) (documents robot_world) =
     Some (SentraCoreModel_dump robot_record) \<and>
   documents (snd (update_sentra_core ''000000000000000000000001''
      (no_patch\<lparr>up_name := Provided (Some ''Renamed'')\<rparr>) robot_world)) =
     [SentraCoreModel_dump (robot_record\<lparr>m_name := ''Renamed'', m_updated_at := 1002\<rparr>)]"
  using update_of_name_changes_name_and_updated_at
    [OF valid_1 robot_world_reachable robot_world_find_1, of "Some ''Renamed''"]
  by (simp add: valid_1 robot_world_reachable robot_world_find_1 Let_def)
     (simp add: robot_world_def SentraCoreModel_dump_def robot_record_def has_id_def
        dump_id_def fromhex_1 dump_opt_str_def)


lemma map_of_dump_field:
  "map_of (dump_field k enc f) k' =
     (if k' = k then
        (case f of Unset \<Rightarrow> None | Provided None \<Rightarrow> Some VNull
         | Provided (Some v) \<Rightarrow> Some (enc v))
      else None)"
  by (simp add: dump_field_def split: field.splits option.splits)

lemma update_dict_values:
  "map_of (update_dict u now) ''name'' =
     (case up_name u of Unset \<Rightarrow> None | Provided v \<Rightarrow> Some (dump_opt_str v))"
  "map_of (update_dict u now) ''description'' =
     (case up_description u of Unset \<Rightarrow> None | Provided v \<Rightarrow> Some (dump_opt_str v))"
  "map_of (update_dict u now) ''labels'' =
     (case up_labels u of Unset \<Rightarrow> None | Provided None \<Rightarrow> Some VNull
      | Provided (Some ls) \<Rightarrow> Some (VList (map LabelModel_dump ls)))"
  "map_of (update_dict u now) ''connections'' =
     (case up_connections u of Unset \<Rightarrow> None | Provided None \<Rightarrow> Some VNull
      | Provided (Some cs) \<Rightarrow> Some (VList (map ConnectionModel_dump cs)))"
  "map_of (update_dict u now) ''selected_option'' =
     (case up_selected_option u of Unset \<Rightarrow> None | Provided v \<Rightarrow> Some (dump_opt_str v))"
  by (simp_all add: update_dict_def AList.update_conv' SentraCoreUpdate_dump_exclude_unset_def
      map_add_def map_of_dump_field dump_opt_str_def split: field.splits option.splits)

lemma apply_set_update_dict_lookup:
  "map_of (apply_set (update_dict u now) d) k =
     (case map_of (update_dict u now) k of None \<Rightarrow> map_of d k | Some v \<Rightarrow> Some v)"
  by (simp add: map_of_apply_set map_of_rev_distinct distinct_keys_update_dict)

text \<open>
  C10. For every update, the fields of the dictionary handed to \<^verbatim>\<open>$set\<close> are
  exactly the fields the patch sets plus \<^verbatim>\<open>updated_at\<close>; each field of the patch
  carries the value the patch gives it and \<^verbatim>\<open>updated_at\<close> the reading of the
  clock, whatever the patch, an empty one included; \<^verbatim>\<open>_id\<close> and
  \<^verbatim>\<open>created_at\<close> are never among them. Where the identifier is well formed, the
  store answers and a record carries the identifier, that dictionary is what reaches the
  store: the collection afterwards is the one before with the record replaced, and in
  the record found under the identifier every field of the dictionary has the
  dictionary's value and every other field, \<^verbatim>\<open>_id\<close> and \<^verbatim>\<open>created_at\<close>
  among them, the value it had.
\<close>

theorem update_writes_set_fields_and_updated_at:
  "let now = clock w (ticks w);
       written = update_dict u now;
       after = documents (snd (update_sentra_core sid u w))
   in fst ` set written = fields_set u \<union> {''updated_at''} \<and>
      ''_id'' \<notin> fst ` set written \<and>
      ''created_at'' \<notin> fst ` set written \<and>
      map_of written ''updated_at'' = Some (VDate now) \<and>
      map_of written ''name'' =
        (case up_name u of Unset \<Rightarrow> None | Provided v \<Rightarrow> Some (dump_opt_str v)) \<and>
      map_of written ''description'' =
        (case up_description u of Unset \<Rightarrow> None | Provided v \<Rightarrow> Some (dump_opt_str v)) \<and>
      map_of written ''labels'' =
        (case up_labels u of Unset \<Rightarrow> None | Provided None \<Rightarrow> Some VNull
         | Provided (Some ls) \<Rightarrow> Some (VList (map LabelModel_dump ls))) \<and>
      map_of written ''connections'' =
        (case up_connections u of Unset \<Rightarrow> None | Provided None \<Rightarrow> Some VNull
         | Provided (Some cs) \<Rightarrow> Some (VList (map ConnectionModel_dump cs))) \<and>
      map_of written ''selected_option'' =
        (case up_selected_option u of Unset \<Rightarrow> None
         | Provided v \<Rightarrow> Some (dump_opt_str v)) \<and>
      update_dict no_patch now = [(''updated_at'', VDate now)] \<and>
      (is_valid sid \<and> reachable w \<and>
       List.find (has_id (VOid (fromhex sid))) (documents w) = Some d \<longrightarrow>
         after =
           replace_first (has_id (VOid (fromhex sid))) (apply_set written d) (documents w) \<and>
         (\<exists>d'. List.find (has_id (VOid (fromhex sid))) after = Some d' \<and>
            (\<forall>k. map_of d' k =
               (case map_of written k of None \<Rightarrow> map_of d k | Some v \<Rightarrow> Some v)) \<and>
            map_of d' ''_id'' = map_of d ''_id'' \<and>
            map_of d' ''created_at'' = map_of d ''created_at'' \<and>
            map_of d' ''updated_at'' = Some (VDate now)) \<and>
         documents (snd (update_sentra_core sid no_patch w)) =
           replace_first (has_id (VOid (fromhex sid)))
             (AList.update ''updated_at'' (VDate now) d) (documents w))"
proof -
  define now where "now = clock w (ticks w)"
  have keys: "fst ` set (update_dict u now) = fields_set u \<union> {''updated_at''}"
    by (rule keys_update_dict)
  have store: "documents (snd (update_sentra_core sid u w)) =
        replace_first (has_id (VOid (fromhex sid))) (apply_set (update_dict u now) d)
          (documents w) \<and>
      (\<exists>d'. List.find (has_id (VOid (fromhex sid)))
          (documents (snd (update_sentra_core sid u w))) = Some d' \<and>
        (\<forall>k. map_of d' k =
           (case map_of (update_dict u now) k of None \<Rightarrow> map_of d k | Some v \<Rightarrow> Some v)) \<and>
        map_of d' ''_id'' = map_of d ''_id'' \<and>
        map_of d' ''created_at'' = map_of d ''created_at'' \<and>
        map_of d' ''updated_at'' = Some (VDate now)) \<and>
      documents (snd (update_sentra_core sid no_patch w)) =
        replace_first (has_id (VOid (fromhex sid)))
          (AList.update ''updated_at'' (VDate now) d) (documents w)"
    if a: "is_valid sid" "reachable w"
      "List.find (has_id (VOid (fromhex sid))) (documents w) = Some d"
  proof -
    define d' where "d' = apply_set (update_dict u now) d"
    have after: "documents (snd (update_sentra_core sid u w)) =
        replace_first (has_id (VOid (fromhex sid))) d' (documents w)"
      using update_documents [OF a, of u] by (simp add: now_def d'_def)
    have found: "List.find (has_id (VOid (fromhex sid)))
        (replace_first (has_id (VOid (fromhex sid))) d' (documents w)) = Some d'"
      unfolding d'_def by (rule has_id_apply_set_update_dict) (rule a(3))
    have every: "\<forall>k. map_of d' k =
        (case map_of (update_dict u now) k of None \<Rightarrow> map_of d k | Some v \<Rightarrow> Some v)"
      unfolding d'_def by (simp add: apply_set_update_dict_lookup)
    have id: "map_of d' ''_id'' = map_of d ''_id''"
      unfolding d'_def by (rule apply_set_frame) (rule id_not_written)
    have ca: "map_of d' ''created_at'' = map_of d ''created_at''"
      unfolding d'_def by (rule apply_set_frame) (rule created_at_not_written)
    have ua: "map_of d' ''updated_at'' = Some (VDate now)"
      unfolding d'_def
      by (rule apply_set_written) (rule distinct_keys_update_dict, rule update_dict_updated_at)
    have empty: "documents (snd (update_sentra_core sid no_patch w)) =
        replace_first (has_id (VOid (fromhex sid)))
          (AList.update ''updated_at'' (VDate now) d) (documents w)"
      using update_documents [OF a, of no_patch]
      by (simp add: now_def update_dict_no_patch apply_set_def)
    show ?thesis
      unfolding after d'_def [symmetric] using found every id ca ua empty by blast
  qed
  have dict: "fst ` set (update_dict u now) = fields_set u \<union> {''updated_at''} \<and>
      ''_id'' \<notin> fst ` set (update_dict u now) \<and>
      ''created_at'' \<notin> fst ` set (update_dict u now) \<and>
      map_of (update_dict u now) ''updated_at'' = Some (VDate now) \<and>
      map_of (update_dict u now) ''name'' =
        (case up_name u of Unset \<Rightarrow> None | Provided v \<Rightarrow> Some (dump_opt_str v)) \<and>
      map_of (update_dict u now) ''description'' =
        (case up_description u of Unset \<Rightarrow> None | Provided v \<Rightarrow> Some (dump_opt_str v)) \<and>
      map_of (update_dict u now) ''labels'' =
        (case up_labels u of Unset \<Rightarrow> None | Provided None \<Rightarrow> Some VNull
         | Provided (Some ls) \<Rightarrow> Some (VList (map LabelModel_dump ls))) \<and>
      map_of (update_dict u now) ''connections'' =
        (case up_connections u of Unset \<Rightarrow> None | Provided None \<Rightarrow> Some VNull
         | Provided (Some cs) \<Rightarrow> Some (VList (map ConnectionModel_dump cs))) \<and>
      map_of (update_dict u now) ''selected_option'' =
        (case up_selected_option u of Unset \<Rightarrow> None
         | Provided v \<Rightarrow> Some (dump_opt_str v)) \<and>
      update_dict no_patch now = [(''updated_at'', VDate now)]"
    by (intro conjI keys id_not_written created_at_not_written update_dict_updated_at
        update_dict_values update_dict_no_patch)
  have reach: "is_valid sid \<and> reachable w \<and>
      List.find (has_id (VOid (fromhex sid))) (documents w) = Some d \<longrightarrow>
      documents (snd (update_sentra_core sid u w)) =
        replace_first (has_id (VOid (fromhex sid))) (apply_set (update_dict u now) d)
          (documents w) \<and>
      (\<exists>d'. List.find (has_id (VOid (fromhex sid)))
          (documents (snd (update_sentra_core sid u w))) = Some d' \<and>
        (\<forall>k. map_of d' k =
           (case map_of (update_dict u now) k of None \<Rightarrow> map_of d k | Some v \<Rightarrow> Some v)) \<and>
        map_of d' ''_id'' = map_of d ''_id'' \<and>
        map_of d' ''created_at'' = map_of d ''created_at'' \<and>
        map_of d' ''updated_at'' = Some (VDate now)) \<and>
      documents (snd (update_sentra_core sid no_patch w)) =
        replace_first (has_id (VOid (fromhex sid)))
          (AList.update ''updated_at'' (VDate now) d) (documents w)"
    using store by (intro impI) (elim conjE)
  from dict reach show ?thesis
    unfolding Let_def now_def [symmetric]
    by (elim conjE, intro conjI) assumption+
qed

theorem update_writes_set_fields_and_updated_at_witness:
  "is_valid ''000000000000000000000001'' \<and> reachable robot_world \<and>
   List.find (has_id (VOid (fromhex ''000000000000000000000001''))) (documents robot_world) =
     Some (SentraCoreModel_dump robot_record) \<and>
   fst ` set (update_dict no_patch 1002) = {''updated_at''} \<and>
   documents (snd (update_sentra_core ''000000000000000000000001'' no_patch robot_world)) =
     [SentraCoreModel_dump (robot_record\<lparr>m_updated_at := 1002\<rparr>)] \<and>
   documents (snd (update_sentra_core ''000000000000000000000001''
      (no_patch\<lparr>up_description := Provided None\<rparr>) robot_world)) =
     [SentraCoreModel_dump (robot_record\<lparr>m_description := None, m_updated_at := 1002\<rparr>)]"
  using update_writes_set_fields_and_updated_at
    [of robot_world no_patch "''000000000000000000000001''" "SentraCoreModel_dump robot_record"]
    update_writes_set_fields_and_updated_at
    [of robot_world "no_patch\<lparr>up_description := Provided None\<rparr>"
      "''000000000000000000000001''" "SentraCoreModel_dump robot_record"]
  by (simp add: valid_1 robot_world_reachable robot_world_find_1 Let_def)
     (simp add: robot_world_def SentraCoreModel_dump_def robot_record_def has_id_def
        dump_id_def fromhex_1 fields_set_def no_patch_def update_dict_def apply_set_def
        SentraCoreUpdate_dump_exclude_unset_def dump_field_def dump_opt_str_def)

subsection \<open>The record returned\<close>

text \<open>
  On the dump of a record, \<^verbatim>\<open>$set\<close> with the dictionary of a patch that sets
  none of the required fields to \<^verbatim>\<open>None\<close> gives the dump of the merged record,
  and that is what \<^verbatim>\<open>update_sentra_core\<close> returns, unless nothing changed.
\<close>

lemma apply_set_append: "apply_set (xs @ ys) d = apply_set ys (apply_set xs d)"
  by (simp add: apply_set_def)

lemma apply_set_Nil: "apply_set [] d = d"
  by (simp add: apply_set_def)

lemma apply_set_single: "apply_set [(k, v)] d = AList.update k v d"
  by (simp add: apply_set_def)

lemma set_name:
  "AList.update ''name'' (VStr n) (SentraCoreModel_dump m) =
     SentraCoreModel_dump (m\<lparr>m_name := n\<rparr>)"
  by (simp add: SentraCoreModel_dump_def)

lemma set_description:
  "AList.update ''description'' (dump_opt_str v) (SentraCoreModel_dump m) =
     SentraCoreModel_dump (m\<lparr>m_description := v\<rparr>)"
  by (simp add: SentraCoreModel_dump_def)

lemma set_labels:
  "AList.update ''labels'' (VList (map LabelModel_dump ls)) (SentraCoreModel_dump m) =
     SentraCoreModel_dump (m\<lparr>m_labels := ls\<rparr>)"
  by (simp add: SentraCoreModel_dump_def)

lemma set_connections:
  "AList.update ''connections'' (VList (map ConnectionModel_dump cs)) (SentraCoreModel_dump m) =
     SentraCoreModel_dump (m\<lparr>m_connections := cs\<rparr>)"
  by (simp add: SentraCoreModel_dump_def)

lemma set_selected_option:
  "AList.update ''selected_option'' (dump_opt_str v) (SentraCoreModel_dump m) =
     SentraCoreModel_dump (m\<lparr>m_selected_option := v\<rparr>)"
  by (simp add: SentraCoreModel_dump_def)

lemma set_updated_at:
  "AList.update ''updated_at'' (VDate t) (SentraCoreModel_dump m) =
     SentraCoreModel_dump (m\<lparr>m_updated_at := t\<rparr>)"
  by (simp add: SentraCoreModel_dump_def)

lemma update_new_key: "map_of al k = None \<Longrightarrow> AList.update k v al = al @ [(k, v)]"
  by (induction al) (auto split: if_splits)

lemma update_dict_append:
  "update_dict u now = SentraCoreUpdate_dump_exclude_unset u @ [(''updated_at'', VDate now)]"
proof -
  have "''updated_at'' \<notin> set (map fst (SentraCoreUpdate_dump_exclude_unset u))"
    by (simp add: keys_dump_exclude_unset)
  then have "map_of (SentraCoreUpdate_dump_exclude_unset u) ''updated_at'' = None"
    by (simp add: map_of_eq_None_iff)
  then show ?thesis
    unfolding update_dict_def by (rule update_new_key)
qed

lemma apply_dump_field:
  "apply_set (dump_field k enc f) d =
     (case f of Unset \<Rightarrow> d
      | Provided None \<Rightarrow> AList.update k VNull d
      | Provided (Some v) \<Rightarrow> AList.update k (enc v) d)"
  by (simp add: dump_field_def apply_set_def split: field.splits option.splits)

lemma dump_opt_str_simps: "dump_opt_str None = VNull" "dump_opt_str (Some t) = VStr t"
  by (simp_all add: dump_opt_str_def)

lemma apply_set_dump:
  assumes "\<not> nulls_required u"
  shows "apply_set (update_dict u now) (SentraCoreModel_dump m) =
     SentraCoreModel_dump (merge_patch u now m)"
proof -
  define m1 where
    "m1 = m\<lparr>m_name := (case up_name u of Provided (Some n) \<Rightarrow> n | _ \<Rightarrow> m_name m)\<rparr>"
  define m2 where
    "m2 = m1\<lparr>m_description :=
       (case up_description u of Provided v \<Rightarrow> v | Unset \<Rightarrow> m_description m)\<rparr>"
  define m3 where
    "m3 = m2\<lparr>m_labels := (case up_labels u of Provided (Some ls) \<Rightarrow> ls | _ \<Rightarrow> m_labels m)\<rparr>"
  define m4 where
    "m4 = m3\<lparr>m_connections :=
       (case up_connections u of Provided (Some cs) \<Rightarrow> cs | _ \<Rightarrow> m_connections m)\<rparr>"
  define m5 where
    "m5 = m4\<lparr>m_selected_option :=
       (case up_selected_option u of Provided v \<Rightarrow> v | Unset \<Rightarrow> m_selected_option m)\<rparr>"
  from assms have nn: "up_name u \<noteq> Provided None" "up_labels u \<noteq> Provided None"
    "up_connections u \<noteq> Provided None"
    by (simp_all add: nulls_required_def)
  have s1: "apply_set (dump_field ''name'' VStr (up_name u)) (SentraCoreModel_dump m) =
      SentraCoreModel_dump m1"
    using nn(1)
    by (simp add: apply_dump_field m1_def set_name split: field.splits option.splits)
  have s2: "apply_set (dump_field ''description'' VStr (up_description u))
      (SentraCoreModel_dump m1) = SentraCoreModel_dump m2"
    using set_description [of None m1] set_description [of "Some t" m1 for t]
    by (simp add: apply_dump_field m2_def m1_def dump_opt_str_simps
        split: field.splits option.splits)
  have s3: "apply_set (dump_field ''labels'' (\<lambda>ls. VList (map LabelModel_dump ls)) (up_labels u))
      (SentraCoreModel_dump m2) = SentraCoreModel_dump m3"
    using nn(2)
    by (simp add: apply_dump_field m3_def m2_def m1_def set_labels
        split: field.splits option.splits)
  have s4: "apply_set
      (dump_field ''connections'' (\<lambda>cs. VList (map ConnectionModel_dump cs)) (up_connections u))
      (SentraCoreModel_dump m3) = SentraCoreModel_dump m4"
    using nn(3)
    by (simp add: apply_dump_field m4_def m3_def m2_def m1_def set_connections
        split: field.splits option.splits)
  have s5: "apply_set (dump_field ''selected_option'' VStr (up_selected_option u))
      (SentraCoreModel_dump m4) = SentraCoreModel_dump m5"
    using set_selected_option [of None m4] set_selected_option [of "Some t" m4 for t]
    by (simp add: apply_dump_field m5_def m4_def m3_def m2_def m1_def dump_opt_str_simps
        split: field.splits option.splits)
  have "apply_set (update_dict u now) (SentraCoreModel_dump m) =
      SentraCoreModel_dump (m5\<lparr>m_updated_at := now\<rparr>)"
    unfolding update_dict_append SentraCoreUpdate_dump_exclude_unset_def apply_set_append
      s1 s2 s3 s4 s5
    by (simp add: apply_set_single set_updated_at)
  also have "m5\<lparr>m_updated_at := now\<rparr> = merge_patch u now m"
    by (simp add: merge_patch_def m5_def m4_def m3_def m2_def m1_def)
  finally show ?thesis .
qed

lemma dump_inj:
  assumes "SentraCoreModel_dump a = SentraCoreModel_dump b"
  shows "a = b"
proof -
  have "fst (SentraCoreModel_validate (SentraCoreModel_dump a) w) =
      fst (SentraCoreModel_validate (SentraCoreModel_dump b) w)" for w
    by (simp only: assms)
  then show ?thesis
    by (simp only: SentraCoreModel_roundtrip fst_conv sum.inject)
qed

lemma update_absent:
  assumes "is_valid sid" and "reachable w"
    and "\<not> list_ex (has_id (VOid (fromhex sid))) (documents w)"
  shows "update_sentra_core sid u w = (Inr None, w\<lparr>ticks := Suc (ticks w)\<rparr>)"
  using assms
  by (simp add: update_sentra_core_def reraise_def utcnow_def ObjectId_of_str_def
      update_one_def find_absent)

lemma update_returns_refreshed:
  assumes "is_valid sid" and "reachable w"
    and "List.find (has_id (VOid (fromhex sid))) (documents w) = Some (SentraCoreModel_dump m)"
    and "\<not> nulls_required u"
  shows "update_sentra_core sid u w =
     (let m' = merge_patch u (clock w (ticks w)) m;
          w' = w\<lparr>ticks := Suc (ticks w),
                 documents := replace_first (has_id (VOid (fromhex sid)))
                   (SentraCoreModel_dump m') (documents w)\<rparr>
      in (if m' = m then Inr None else Inr (Some m'), w'))"
  unfolding update_result [OF assms(1-3)] Let_def apply_set_dump [OF assms(4)]
  by (auto simp: SentraCoreModel_roundtrip dest: dump_inj)

text \<open>
  C4. The claim: for every well-formed identifier and every patch, \<^verbatim>\<open>update\<close>
  returns the refreshed record when the store reports a modified document, and an absent
  result when no record matched or nothing was modified. \<open>update_absent\<close> and
  \<open>update_returns_refreshed\<close> show this for every patch that sets none of
  \<^verbatim>\<open>name\<close>, \<^verbatim>\<open>labels\<close> and \<^verbatim>\<open>connections\<close> to
  \<^verbatim>\<open>None\<close>. It does not hold for the patch \<^verbatim>\<open>{"name": null}\<close>, which
  \<^verbatim>\<open>SentraCoreUpdate\<close> accepts (\<^verbatim>\<open>name: Optional[str]\<close>) and
  \<^verbatim>\<open>model_dump(exclude_unset=True)\<close> keeps: on the sample collection the store
  reports one modified document, the stored name becomes null, and
  \<^verbatim>\<open>SentraCoreModel(**updated_doc)\<close> fails on it, so that the method raises and
  the route answers 500.
\<close>

theorem null_name_patch_raises:
  "fst (update_one (VOid 1) (update_dict (no_patch\<lparr>up_name := Provided None\<rparr>) 1002)
      (robot_world\<lparr>ticks := 3\<rparr>)) = Inr \<lparr>matched_count = 1, modified_count = 1\<rparr> \<and>
   fst (update_sentra_core ''000000000000000000000001''
      (no_patch\<lparr>up_name := Provided None\<rparr>) robot_world) =
     Inl (Exception
       ''Error updating SentraCore configuration: validation error for SentraCoreModel'') \<and>
   status_of 200 (fst (update_sentra_core_route ''000000000000000000000001''
      (no_patch\<lparr>up_name := Provided None\<rparr>) robot_world)) = 500 \<and>
   map (\<lambda>d. map_of d ''name'')
     (documents (snd (update_sentra_core ''000000000000000000000001''
        (no_patch\<lparr>up_name := Provided None\<rparr>) robot_world))) = [Some VNull]"
proof -
  let ?u = "no_patch\<lparr>up_name := Provided None\<rparr>"
  let ?d = "SentraCoreModel_dump robot_record"
  let ?d' = "AList.update ''updated_at'' (VDate 1002) (AList.update ''name'' VNull ?d)"
  have now: "clock robot_world (ticks robot_world) = 1002"
    by (simp add: robot_world_def)
  have set: "apply_set (update_dict ?u 1002) ?d = ?d'"
    by (simp add: update_dict_name_only apply_set_def dump_opt_str_def)
  have neq: "?d' \<noteq> ?d"
    by (simp add: SentraCoreModel_dump_def robot_record_def)
  have bad: "fst (SentraCoreModel_validate ?d' w) =
      Inl (ValidationError ''validation error for SentraCoreModel'')" for w
    by (simp add: SentraCoreModel_validate_def SentraCoreModel_dump_def robot_record_def
        id_field_def datetime_field_def get_str_def dump_id_def validate_id_def split_beta)
  have res: "fst (update_sentra_core ''000000000000000000000001'' ?u robot_world) =
     Inl (Exception
       ''Error updating SentraCore configuration: validation error for SentraCoreModel'')"
    unfolding update_result [OF valid_1 robot_world_reachable robot_world_find_1] Let_def now set
    using neq bad
    by (simp add: split_beta split: sum.splits prod.splits)
  have one: "fst (update_one (VOid 1) (update_dict ?u 1002) (robot_world\<lparr>ticks := 3\<rparr>)) =
      Inr \<lparr>matched_count = 1, modified_count = 1\<rparr>"
    using robot_world_find_1 robot_world_reachable neq
    by (simp add: update_one_def fromhex_1 set Let_def)
       (simp add: SentraCoreModel_dump_def robot_record_def AList.update_conv')
  have docs: "documents (snd (update_sentra_core ''000000000000000000000001'' ?u robot_world)) =
      [?d']"
    unfolding update_documents [OF valid_1 robot_world_reachable robot_world_find_1] now set
    by (simp add: robot_world_def has_id_def SentraCoreModel_dump_def robot_record_def
        dump_id_def fromhex_1)
  have route: "status_of 200 (fst (update_sentra_core_route ''000000000000000000000001''
      ?u robot_world)) = 500"
    using res by (simp add: update_sentra_core_route_def split_beta http_errors_def status_of_def)
  show ?thesis
    using one res route unfolding docs
    by (simp add: SentraCoreModel_dump_def robot_record_def)
qed

section \<open>Deleting a configuration\<close>

lemma remove_first_absent: "\<not> list_ex P xs \<Longrightarrow> remove_first P xs = xs"
  by (induction xs) simp_all

lemma list_ex_nonempty: "list_ex P xs \<Longrightarrow> 0 < length xs"
  by (cases xs) simp_all

lemma length_remove_first:
  "length (remove_first P xs) = (if list_ex P xs then length xs - 1 else length xs)"
  by (induction xs) (auto dest: list_ex_nonempty)

lemma unique_ids_remove_first:
  "unique_ids ds \<Longrightarrow> \<not> list_ex (has_id v) (remove_first (has_id v) ds)"
proof (induction ds)
  case Nil
  then show ?case by simp
next
  case (Cons d ds)
  show ?case
  proof (cases "has_id v d")
    case True
    with Cons.prems have "Some v \<notin> (\<lambda>d. map_of d ''_id'') ` set ds"
      by (simp add: unique_ids_def has_id_def)
    then have "\<not> list_ex (has_id v) ds"
      by (force simp: list_ex_iff has_id_def image_iff)
    with True show ?thesis by simp
  next
    case False
    with Cons show ?thesis by (simp add: unique_ids_def)
  qed
qed

lemma find_present: "list_ex P xs \<Longrightarrow> \<exists>x. List.find P xs = Some x"
  by (induction xs) auto

lemma delete_present:
  assumes "is_valid sid" and "reachable w"
    and "list_ex (has_id (VOid (fromhex sid))) (documents w)"
  shows "delete_sentra_core sid w =
     (Inr True, w\<lparr>documents := remove_first (has_id (VOid (fromhex sid))) (documents w)\<rparr>)"
  using assms find_present [OF assms(3)]
  by (auto simp: delete_sentra_core_def reraise_def ObjectId_of_str_def delete_one_def)

lemma delete_absent:
  assumes "is_valid sid" and "reachable w"
    and "\<not> list_ex (has_id (VOid (fromhex sid))) (documents w)"
  shows "delete_sentra_core sid w = (Inr False, w)"
  using assms
  by (simp add: delete_sentra_core_def reraise_def ObjectId_of_str_def delete_one_def
      find_absent)

lemma get_absent:
  assumes "is_valid sid" and "reachable w"
    and "\<not> list_ex (has_id (VOid (fromhex sid))) (documents w)"
  shows "get_sentra_core_by_id sid w = (Inr None, w)"
  using assms
  by (simp add: get_sentra_core_by_id_def reraise_def ObjectId_of_str_def find_one_def
      find_absent)

text \<open>
  C6. For every well-formed identifier, on a collection that answers and whose
  identifiers are unique, \<^verbatim>\<open>delete\<close> returns true exactly when a record with
  the identifier existed, and then the collection afterwards is the one before without
  that record; it returns false, not an error, when no record matched. After the call no
  record carries the identifier: a second \<^verbatim>\<open>delete\<close> of it returns false and
  \<^verbatim>\<open>get_by_id\<close> returns an absent result.
\<close>

theorem delete_removes_the_record:
  assumes "is_valid sid" and "reachable w" and "unique_ids (documents w)"
  shows
    "let oid = VOid (fromhex sid);
         existed = list_ex (has_id oid) (documents w);
         (deleted, w') = delete_sentra_core sid w
     in deleted = Inr existed \<and>
        documents w' = remove_first (has_id oid) (documents w) \<and>
        length (documents w') =
          (if existed then length (documents w) - 1 else length (documents w)) \<and>
        \<not> list_ex (has_id oid) (documents w') \<and>
        delete_sentra_core sid w' = (Inr False, w') \<and>
        get_sentra_core_by_id sid w' = (Inr None, w')"
proof (cases "list_ex (has_id (VOid (fromhex sid))) (documents w)")
  case True
  define w' where
    "w' = w\<lparr>documents := remove_first (has_id (VOid (fromhex sid))) (documents w)\<rparr>"
  have del: "delete_sentra_core sid w = (Inr True, w')"
    unfolding w'_def using assms(1,2) True by (rule delete_present)
  have gone: "\<not> list_ex (has_id (VOid (fromhex sid))) (documents w')"
    using unique_ids_remove_first [OF assms(3)] by (simp add: w'_def)
  have r: "reachable w'"
    using assms(2) by (simp add: w'_def)
  show ?thesis
    using True gone delete_absent [OF assms(1) r gone] get_absent [OF assms(1) r gone]
    by (simp add: del Let_def length_remove_first) (simp add: w'_def length_remove_first)
next
  case False
  show ?thesis
    using False delete_absent [OF assms(1,2) False] get_absent [OF assms(1,2) False]
    by (simp add: Let_def remove_first_absent)
qed

lemma robot_world_unique: "unique_ids (documents robot_world)"
  by (simp add: robot_world_def unique_ids_def)

theorem delete_removes_the_record_witness:
  "is_valid ''000000000000000000000001'' \<and> reachable robot_world \<and>
   unique_ids (documents robot_world) \<and>
   fst (delete_sentra_core ''000000000000000000000001'' robot_world) = Inr True \<and>
   documents (snd (delete_sentra_core ''000000000000000000000001'' robot_world)) = [] \<and>
   fst (delete_sentra_core ''000000000000000000000001''
     (snd (delete_sentra_core ''000000000000000000000001'' robot_world))) = Inr False \<and>
   fst (get_sentra_core_by_id ''000000000000000000000001''
     (snd (delete_sentra_core ''000000000000000000000001'' robot_world))) = Inr None"
  using delete_removes_the_record [OF valid_1 robot_world_reachable robot_world_unique]
  by (simp add: valid_1 robot_world_reachable robot_world_unique Let_def split_beta)
     (simp add: robot_world_def fromhex_1 has_id_def SentraCoreModel_dump_def
        robot_record_def dump_id_def)


text \<open>
  The uniqueness of identifiers that the theorem asks for is kept by what the store does
  in \<^verbatim>\<open>insert_one\<close>, \<^verbatim>\<open>update_one\<close> and \<^verbatim>\<open>delete_one\<close>.
\<close>

lemma unique_ids_append:
  assumes "unique_ids ds" and "\<not> list_ex (has_id v) ds" and "map_of doc ''_id'' = Some v"
  shows "unique_ids (ds @ [doc])"
proof -
  from assms(2) have "Some v \<notin> (\<lambda>d. map_of d ''_id'') ` set ds"
    by (force simp: list_ex_iff has_id_def image_iff)
  with assms(1,3) show ?thesis
    by (simp add: unique_ids_def)
qed

lemma ids_replace_first:
  "map_of d' ''_id'' = Some v \<Longrightarrow>
   map (\<lambda>d. map_of d ''_id'') (replace_first (has_id v) d' ds) = map (\<lambda>d. map_of d ''_id'') ds"
  by (induction ds) (simp_all add: has_id_def)

lemma unique_ids_replace_first:
  "unique_ids ds \<Longrightarrow> map_of d' ''_id'' = Some v \<Longrightarrow>
   unique_ids (replace_first (has_id v) d' ds)"
  by (simp add: unique_ids_def ids_replace_first)

lemma set_remove_first: "set (remove_first P xs) \<subseteq> set xs"
  by (induction xs) auto

lemma distinct_map_remove_first:
  "distinct (map f xs) \<Longrightarrow> distinct (map f (remove_first P xs))"
proof (induction xs)
  case Nil
  then show ?case by simp
next
  case (Cons x xs)
  then show ?case
    using set_remove_first [of P xs] by auto
qed

lemma unique_ids_remove:
  "unique_ids ds \<Longrightarrow> unique_ids (remove_first P ds)"
  unfolding unique_ids_def by (rule distinct_map_remove_first)

section \<open>Listing the configurations\<close>

text \<open>
  On a collection that holds the dumps of the records \<open>ms\<close>, the cursor returns the
  dumps of a page of \<open>newest_first ms\<close> and validation reads them back.
\<close>

lemma insort_key_map:
  "insort_key f (g x) (map g xs) = map g (insort_key (\<lambda>a. f (g a)) x xs)"
  by (induction xs) simp_all

lemma sort_key_map: "sort_key f (map g xs) = map g (sort_key (\<lambda>a. f (g a)) xs)"
  by (induction xs) (simp_all add: insort_key_map)

lemma created_at_key_dump: "created_at_key (SentraCoreModel_dump m) = int (m_created_at m)"
  by (simp add: created_at_key_def SentraCoreModel_dump_def)

lemma sort_dumps:
  "sort_created_at_desc (map SentraCoreModel_dump ms) =
     map SentraCoreModel_dump (newest_first ms)"
  by (simp add: sort_created_at_desc_def newest_first_def sort_key_map created_at_key_dump)

lemma validate_all_dumps: "validate_all (map SentraCoreModel_dump ms) w = (Inr ms, w)"
  by (induction ms) (simp_all add: SentraCoreModel_roundtrip)

lemma newest_first_sorted:
  "sorted_wrt (\<lambda>a b. m_created_at b \<le> m_created_at a) (newest_first ms)"
proof -
  have "sorted (map (\<lambda>m. - int (m_created_at m)) (newest_first ms))"
    unfolding newest_first_def by (rule sorted_sort_key)
  then show ?thesis
    by (simp add: sorted_map)
qed

lemma page_sorted:
  "sorted_wrt (\<lambda>a b. m_created_at b \<le> m_created_at a)
     (take l (drop s (newest_first ms)))"
  by (intro sorted_wrt_take sorted_wrt_drop newest_first_sorted)

lemma get_all_result:
  assumes "reachable w" and "documents w = map SentraCoreModel_dump ms"
  shows "get_all_sentra_core skip limit w =
     (if skip < 0 then
        (Inl (Exception (''Error retrieving SentraCore configurations: '' @
               ''skip must be >= 0'')), w)
      else if limit < 0 then
        (Inl (Exception (''Error retrieving SentraCore configurations: '' @
               ''length must be non-negative'')), w)
      else if 2 ^ 63 \<le> skip \<or> 2 ^ 63 \<le> limit then
        (Inl (Exception (''Error retrieving SentraCore configurations: '' @
               ''MongoDB can only handle up to 8-byte ints'')), w)
      else (Inr (take (nat limit) (drop (nat skip) (newest_first ms))), w))"
proof -
  have page: "validate_all
      (take (nat limit) (drop (nat skip) (sort_created_at_desc (documents w)))) w =
      (Inr (take (nat limit) (drop (nat skip) (newest_first ms))), w)"
    by (simp add: assms(2) sort_dumps take_map drop_map validate_all_dumps)
  show ?thesis
    using assms(1)
    by (simp add: get_all_sentra_core_def find_skip_limit_sort_def reraise_def page
        del: append.simps)
qed

text \<open>
  C7, as amended. For every collection of stored records that answers, and every
  \<^verbatim>\<open>skip\<close> and \<^verbatim>\<open>limit\<close> (a parameter left out takes its default, 0 and
  100): when \<^verbatim>\<open>skip\<close> is at least 0 and below \<open>2 ^ 63\<close> and \<^verbatim>\<open>limit\<close>
  is between 1 and 1000, the route returns the records sorted by \<^verbatim>\<open>created_at\<close>
  descending, without the first \<^verbatim>\<open>skip\<close> of them and cut after
  \<^verbatim>\<open>limit\<close>. A \<^verbatim>\<open>skip\<close> below 0 or a \<^verbatim>\<open>limit\<close> outside 1 to
  1000 is refused before the handler runs; the controller itself applies no such bounds
  and returns the page for every \<^verbatim>\<open>skip\<close> and \<^verbatim>\<open>limit\<close> from 0 up to
  what a BSON integer holds.
\<close>

theorem list_is_a_page_of_newest_first:
  assumes "reachable w" and "documents w = map SentraCoreModel_dump ms"
  shows
    "let s = (case skip of None \<Rightarrow> 0 | Some v \<Rightarrow> v);
         l = (case limit of None \<Rightarrow> 100 | Some v \<Rightarrow> v);
         page = take (nat l) (drop (nat s) (newest_first ms))
     in get_all_sentra_core_route skip limit w =
          (if 0 \<le> s \<and> 1 \<le> l \<and> l \<le> 1000 then
             if s < 2 ^ 63 then (Inr page, w)
             else (Inl (HTTPException 500
                     (''Error retrieving SentraCore configurations: '' @
                      ''MongoDB can only handle up to 8-byte ints'')), w)
           else (Inl (RequestValidationError ''query parameter out of range''), w)) \<and>
        sorted_wrt (\<lambda>a b. m_created_at b \<le> m_created_at a) page \<and>
        length page \<le> nat l \<and>
        set (newest_first ms) = set ms \<and>
        length (newest_first ms) = length ms \<and>
        get_all_sentra_core s l w =
          (if s < 0 then
             (Inl (Exception (''Error retrieving SentraCore configurations: '' @
                    ''skip must be >= 0'')), w)
           else if l < 0 then
             (Inl (Exception (''Error retrieving SentraCore configurations: '' @
                    ''length must be non-negative'')), w)
           else if 2 ^ 63 \<le> s \<or> 2 ^ 63 \<le> l then
             (Inl (Exception (''Error retrieving SentraCore configurations: '' @
                    ''MongoDB can only handle up to 8-byte ints'')), w)
           else (Inr page, w))"
proof -
  define s where "s = (case skip of None \<Rightarrow> 0 | Some v \<Rightarrow> v)"
  define l where "l = (case limit of None \<Rightarrow> 100 | Some v \<Rightarrow> v)"
  define page where "page = take (nat l) (drop (nat s) (newest_first ms))"
  have ctl: "get_all_sentra_core s l w =
      (if s < 0 then
         (Inl (Exception (''Error retrieving SentraCore configurations: '' @
                ''skip must be >= 0'')), w)
       else if l < 0 then
         (Inl (Exception (''Error retrieving SentraCore configurations: '' @
                ''length must be non-negative'')), w)
       else if 2 ^ 63 \<le> s \<or> 2 ^ 63 \<le> l then
         (Inl (Exception (''Error retrieving SentraCore configurations: '' @
                ''MongoDB can only handle up to 8-byte ints'')), w)
       else (Inr page, w))"
    unfolding page_def by (rule get_all_result [OF assms])
  have qs: "query_int 0 (\<lambda>v. 0 \<le> v) skip =
      (if 0 \<le> s then Inr s else Inl (RequestValidationError ''query parameter out of range''))"
    by (simp add: query_int_def s_def split: option.splits)
  have ql: "query_int 100 (\<lambda>v. 1 \<le> v \<and> v \<le> 1000) limit =
      (if 1 \<le> l \<and> l \<le> 1000 then Inr l
       else Inl (RequestValidationError ''query parameter out of range''))"
    by (simp add: query_int_def l_def split: option.splits)
  have route: "get_all_sentra_core_route skip limit w =
      (if 0 \<le> s \<and> 1 \<le> l \<and> l \<le> 1000 then
         if s < 2 ^ 63 then (Inr page, w)
         else (Inl (HTTPException 500
                 (''Error retrieving SentraCore configurations: '' @
                  ''MongoDB can only handle up to 8-byte ints'')), w)
       else (Inl (RequestValidationError ''query parameter out of range''), w))"
    unfolding get_all_sentra_core_route_def qs ql
    by (auto simp: ctl simp del: append.simps)
  have srt: "sorted_wrt (\<lambda>a b. m_created_at b \<le> m_created_at a) page"
    unfolding page_def by (rule page_sorted)
  have len: "length page \<le> nat l"
    by (simp add: page_def)
  have perm: "set (newest_first ms) = set ms" "length (newest_first ms) = length ms"
    by (simp_all add: newest_first_def)
  show ?thesis
    unfolding Let_def s_def [symmetric] l_def [symmetric] page_def [symmetric]
    using route srt len perm ctl by (simp del: append.simps)
qed

lemma two_records_documents:
  "documents two_records_world = map SentraCoreModel_dump [robot_record, arm_record]"
  by (simp add: two_records_world_def)

lemma two_records_reachable: "reachable two_records_world"
  by (simp add: two_records_world_def)

lemma newest_first_two: "newest_first [robot_record, arm_record] = [arm_record, robot_record]"
  by (simp add: newest_first_def robot_record_def arm_record_def)

theorem list_is_a_page_of_newest_first_witness:
  "reachable two_records_world \<and>
   documents two_records_world = map SentraCoreModel_dump [robot_record, arm_record] \<and>
   get_all_sentra_core_route None None two_records_world =
     (Inr [arm_record, robot_record], two_records_world) \<and>
   get_all_sentra_core_route (Some 1) (Some 1) two_records_world =
     (Inr [robot_record], two_records_world) \<and>
   get_all_sentra_core_route (Some 0) (Some 1001) two_records_world =
     (Inl (RequestValidationError ''query parameter out of range''), two_records_world) \<and>
   get_all_sentra_core 0 1001 two_records_world =
     (Inr [arm_record, robot_record], two_records_world)"
  using list_is_a_page_of_newest_first [OF two_records_reachable two_records_documents,
      of None None]
    list_is_a_page_of_newest_first [OF two_records_reachable two_records_documents,
      of "Some 1" "Some 1"]
    list_is_a_page_of_newest_first [OF two_records_reachable two_records_documents,
      of "Some 0" "Some 1001"]
  by (simp add: two_records_reachable two_records_documents newest_first_two Let_def)

text \<open>
  C7 as stated promises the page for every \<^verbatim>\<open>skip\<close> that the route accepts,
  and the route accepts every integer from 0 on. With \<^verbatim>\<open>skip\<close> at \<open>2 ^ 63\<close>
  and the default \<^verbatim>\<open>limit\<close>, on the sample collection of two records, the driver
  cannot encode the command and the route answers 500.
\<close>

theorem huge_skip_is_answered_500:
  "get_all_sentra_core_route (Some 9223372036854775808) None two_records_world =
     (Inl (HTTPException 500
        ''Error retrieving SentraCore configurations: MongoDB can only handle up to 8-byte ints''),
      two_records_world)"
  using get_all_result [OF two_records_reachable two_records_documents,
      of 9223372036854775808 100]
  by (simp add: get_all_sentra_core_route_def query_int_def)

end
